theory Spec2Isabelle
  imports Main "HOL-Library.Word" "HOL-Library.Signed_Division"
begin

unbundle bit_operations_syntax

section \<open>The 25AA1024 serial EEPROM driver (25AA1024.h and its implementation)\<close>

text \<open>
  The driver is C for an 8-bit AVR (it includes \<^verbatim>\<open>avr/io.h\<close>): \<^verbatim>\<open>short\<close> and
  \<^verbatim>\<open>int\<close> are 16 bits wide, \<^verbatim>\<open>long\<close> is 32 bits wide, and the I/O registers
  \<^verbatim>\<open>PORTA\<close>, \<^verbatim>\<open>PINA\<close> and \<^verbatim>\<open>DDRA\<close> are 8 bits wide.
\<close>

type_synonym short = "16 word"
type_synonym cint = "16 word"
type_synonym long = "32 word"
type_synonym reg8 = "8 word"

subsection \<open>Constants of the header\<close>

definition MEMSUCC :: short where "MEMSUCC = 0"
definition MEMFAIL :: short where "MEMFAIL = 2"
definition MEMTRUE :: short where "MEMTRUE = 1"
definition MEMFALSE :: short where "MEMFALSE = 0"

definition WP_USED :: short where "WP_USED = MEMFALSE"

definition PAGE_SIZE :: long where "PAGE_SIZE = 256"
definition NUM_PAGES :: nat where "NUM_PAGES = 512"
definition MEMSIZE :: nat where "MEMSIZE = 0x01FFFF"

definition BP00 :: nat where "BP00 = 0x01FFFF"
definition BP01 :: nat where "BP01 = 0x017FFF"
definition BP10 :: nat where "BP10 = 0x00FFFF"
definition BP11 :: nat where "BP11 = 0x000000"

text \<open>
  The pin numbers \<^verbatim>\<open>PORTA0\<close> .. \<^verbatim>\<open>PORTA7\<close> come from the toolchain's
  \<^verbatim>\<open>avr/io.h\<close>, where bit k of port A is the number k.
\<close>

definition CS0 :: short where "CS0 = 0"
definition CS1 :: short where "CS1 = 1"
definition CS2 :: short where "CS2 = 2"
definition CS3 :: short where "CS3 = 3"
definition WP0 :: short where "WP0 = 4"
definition WP1 :: short where "WP1 = 5"
definition WP2 :: short where "WP2 = 6"
definition WP3 :: short where "WP3 = 7"

definition MREAD :: short where "MREAD = 0x03"
definition MWRITE :: short where "MWRITE = 0x02"
definition MWREN :: short where "MWREN = 0x06"
definition MWRDI :: short where "MWRDI = 0x04"
definition MRDSR :: short where "MRDSR = 0x05"
definition MWRSR :: short where "MWRSR = 0x01"
definition MPE :: short where "MPE = 0x42"
definition MSE :: short where "MSE = 0xD8"
definition MCE :: short where "MCE = 0xC7"
definition MRDID :: short where "MRDID = 0xAB"
definition MDPD :: short where "MDPD = 0xB9"

definition MWIP :: nat where "MWIP = 0"
definition MWEL :: nat where "MWEL = 1"
definition MBP0 :: nat where "MBP0 = 2"
definition MBP1 :: nat where "MBP1 = 3"

definition MDEVICE :: short where "MDEVICE = 0x29"

subsection \<open>The hardware the driver talks to\<close>

text \<open>
  Everything outside the driver is an oracle indexed by the number of the call:
  \<^item> \<open>RContPort e k\<close> is the value the k-th read of \<^verbatim>\<open>PINA\<close> gives;
  \<^item> \<open>SPI_Write_Byte e k\<close> is the status the k-th call of \<^verbatim>\<open>SPI_Write_Byte\<close>
    returns (non-zero is a failure);
  \<^item> \<open>SPI_Read_Byte e k\<close> is the status the k-th call of \<^verbatim>\<open>SPI_Read_Byte\<close>
    returns, with the value it stores through its pointer argument.
  Both SPI functions are declared in \<^verbatim>\<open>TinySPI.h\<close>, outside the driver; any run of the
  driver against any bus is the run against one such oracle.
\<close>

record env =
  RContPort :: "nat \<Rightarrow> reg8"
  SPI_Write_Byte :: "nat \<Rightarrow> short"
  SPI_Read_Byte :: "nat \<Rightarrow> short \<times> short"

datatype event =
    PortWrite reg8
  | DDRWrite reg8
  | PinRead reg8
  | SpiWrite short short
  | SpiRead short short

text \<open>
  The state the driver changes: the output latch \<^verbatim>\<open>PORTA\<close>, the direction register
  \<^verbatim>\<open>DDRA\<close>, how many times each oracle was asked, and the log of everything done
  on the pins and on the bus, oldest first.
\<close>

record hw =
  ContPort :: reg8
  ContDDR :: reg8
  pin_reads :: nat
  spi_writes :: nat
  spi_reads :: nat
  trace :: "event list"

definition write_ContPort :: "reg8 \<Rightarrow> hw \<Rightarrow> hw" where
  "write_ContPort v s = s\<lparr>ContPort := v, trace := trace s @ [PortWrite v]\<rparr>"

definition write_ContDDR :: "reg8 \<Rightarrow> hw \<Rightarrow> hw" where
  "write_ContDDR v s = s\<lparr>ContDDR := v, trace := trace s @ [DDRWrite v]\<rparr>"

definition read_RContPort :: "env \<Rightarrow> hw \<Rightarrow> reg8 \<times> hw" where
  "read_RContPort e s =
     (let v = RContPort e (pin_reads s)
      in (v, s\<lparr>pin_reads := Suc (pin_reads s), trace := trace s @ [PinRead v]\<rparr>))"

definition call_SPI_Write_Byte :: "env \<Rightarrow> short \<Rightarrow> hw \<Rightarrow> short \<times> hw" where
  "call_SPI_Write_Byte e byte s =
     (let r = SPI_Write_Byte e (spi_writes s)
      in (r, s\<lparr>spi_writes := Suc (spi_writes s), trace := trace s @ [SpiWrite byte r]\<rparr>))"

definition call_SPI_Read_Byte :: "env \<Rightarrow> hw \<Rightarrow> short \<times> short \<times> hw" where
  "call_SPI_Read_Byte e s =
     (let (r, v) = SPI_Read_Byte e (spi_reads s)
      in (r, v, s\<lparr>spi_reads := Suc (spi_reads s), trace := trace s @ [SpiRead r v]\<rparr>))"

text \<open>\<^verbatim>\<open>(1 << pin)\<close>, as a bit of an 8-bit register and as a bit of a \<^verbatim>\<open>short\<close>.\<close>

definition pin_mask :: "short \<Rightarrow> reg8" where
  "pin_mask pin = push_bit (unat pin) 1"

definition pin_mask16 :: "short \<Rightarrow> short" where
  "pin_mask16 pin = push_bit (unat pin) 1"

subsection \<open>Line lookup\<close>

definition GetCS :: "short \<Rightarrow> short" where
  "GetCS chip =
     (if chip = 0 then CS0
      else if chip = 1 then CS1
      else if chip = 2 then CS2
      else if chip = 3 then CS3
      else CS0)"

definition GetWP :: "short \<Rightarrow> short" where
  "GetWP chip =
     (if chip = 0 then WP0
      else if chip = 1 then WP1
      else if chip = 2 then WP2
      else if chip = 3 then WP3
      else WP0)"

subsection \<open>Driving and verifying a line\<close>

text \<open>
  \<^verbatim>\<open>ContPort |= (1<<CCS); _NOP(); temp = RContPort;
  if( (temp & (1<<CCS)) ) return MEMSUCC; return MEMFAIL;\<close>
\<close>

definition SetCS :: "env \<Rightarrow> short \<Rightarrow> hw \<Rightarrow> short \<times> hw" where
  "SetCS e chip s =
     (let CCS = GetCS chip;
          s1 = write_ContPort (ContPort s OR pin_mask CCS) s;
          (v, s2) = read_RContPort e s1;
          temp = (ucast v :: short)
      in if temp AND pin_mask16 CCS \<noteq> 0 then (MEMSUCC, s2) else (MEMFAIL, s2))"

definition ClearCS :: "env \<Rightarrow> short \<Rightarrow> hw \<Rightarrow> short \<times> hw" where
  "ClearCS e chip s =
     (let CCS = GetCS chip;
          s1 = write_ContPort (ContPort s AND NOT (pin_mask CCS)) s;
          (v, s2) = read_RContPort e s1;
          temp = (ucast v :: short)
      in if \<not> (temp AND pin_mask16 CCS \<noteq> 0) then (MEMSUCC, s2) else (MEMFAIL, s2))"

definition SetWP :: "env \<Rightarrow> short \<Rightarrow> hw \<Rightarrow> short \<times> hw" where
  "SetWP e chip s =
     (let CWP = GetWP chip;
          s1 = write_ContPort (ContPort s OR pin_mask CWP) s;
          (v, s2) = read_RContPort e s1;
          temp = (ucast v :: short)
      in if temp AND pin_mask16 CWP \<noteq> 0 then (MEMSUCC, s2) else (MEMFAIL, s2))"

definition ClearWP :: "env \<Rightarrow> short \<Rightarrow> hw \<Rightarrow> short \<times> hw" where
  "ClearWP e chip s =
     (let CWP = GetWP chip;
          s1 = write_ContPort (ContPort s AND NOT (pin_mask CWP)) s;
          (v, s2) = read_RContPort e s1;
          temp = (ucast v :: short)
      in if \<not> (temp AND pin_mask16 CWP \<noteq> 0) then (MEMSUCC, s2) else (MEMFAIL, s2))"

subsection \<open>Moving bytes\<close>

definition SendByte :: "env \<Rightarrow> short \<Rightarrow> hw \<Rightarrow> short \<times> hw" where
  "SendByte e byte s =
     (let (r, s1) = call_SPI_Write_Byte e byte s
      in if r \<noteq> 0 then (MEMFAIL, s1) else (MEMSUCC, s1))"

definition ReadByte :: "env \<Rightarrow> hw \<Rightarrow> short \<times> short \<times> hw" where
  "ReadByte e s =
     (let (r, v, s1) = call_SPI_Read_Byte e s
      in if r \<noteq> 0 then (MEMFAIL, v, s1) else (MEMSUCC, v, s1))"

text \<open>\<^verbatim>\<open>SendCommand\<close> calls \<^verbatim>\<open>ClearCS( chip );\<close> as a statement: its result is dropped.\<close>

definition SendCommand :: "env \<Rightarrow> short \<Rightarrow> short \<Rightarrow> hw \<Rightarrow> short \<times> hw" where
  "SendCommand e chip Command s =
     (let (_, s1) = ClearCS e chip s;
          (r, s2) = SendByte e Command s1
      in if r \<noteq> 0 then (MEMFAIL, s2) else (MEMSUCC, s2))"

text \<open>
  \<^verbatim>\<open>Addr_Hi = (short)((Address >> 16) & 0x000000FF)\<close> and so on: after the mask only
  bits 0 to 7 of the shifted value are left, so the shift of a negative \<^verbatim>\<open>long\<close>
  (arithmetic with gcc) and the logical shift give the same byte.
\<close>

definition SendAddress :: "env \<Rightarrow> short \<Rightarrow> long \<Rightarrow> hw \<Rightarrow> short \<times> hw" where
  "SendAddress e chip Address s =
     (let Addr_Hi = (ucast (signed_drop_bit 16 Address AND 0x000000FF) :: short);
          Addr_LoHi = (ucast (signed_drop_bit 8 Address AND 0x000000FF) :: short);
          Addr_LoLo = (ucast (Address AND 0x000000FF) :: short);
          (r1, s1) = SendByte e Addr_Hi s
      in if r1 \<noteq> 0 then (MEMFAIL, s1)
         else let (r2, s2) = SendByte e Addr_LoHi s1
              in if r2 \<noteq> 0 then (MEMFAIL, s2)
                 else let (r3, s3) = SendByte e Addr_LoLo s2
                      in if r3 \<noteq> 0 then (MEMFAIL, s3) else (MEMSUCC, s3))"

definition SendCommandAndAddress :: "env \<Rightarrow> short \<Rightarrow> short \<Rightarrow> long \<Rightarrow> hw \<Rightarrow> short \<times> hw" where
  "SendCommandAndAddress e chip Command Address s =
     (let (r1, s1) = SendCommand e chip Command s
      in if r1 \<noteq> 0 then (MEMFAIL, s1)
         else let (r2, s2) = SendAddress e chip Address s1
              in if r2 \<noteq> 0 then (MEMFAIL, s2) else (MEMSUCC, s2))"

subsection \<open>Page of an address\<close>

text \<open>
  \<^verbatim>\<open>temp = (int)(Address/PAGE_SIZE); page = &temp; page--;
  if( temp > 511 ) return MEMFAIL; return MEMSUCC;\<close>

  The division is C's, on \<^verbatim>\<open>long\<close>: it truncates towards zero. The cast to the
  16-bit \<^verbatim>\<open>int\<close> keeps the low 16 bits. The parameter \<^verbatim>\<open>page\<close> is a local copy of
  the caller's pointer: the body points it at \<^verbatim>\<open>temp\<close> and steps it back, and stores
  nothing through it, so the caller's \<^verbatim>\<open>int\<close> (the second argument here, returned as
  the second component) is what it was.
\<close>

definition long_div :: "long \<Rightarrow> long \<Rightarrow> long" where
  "long_div a b = word_of_int (sint a sdiv sint b)"

definition GetPage :: "long \<Rightarrow> cint \<Rightarrow> cint \<times> cint" where
  "GetPage Address caller_page =
     (let temp = (scast (long_div Address PAGE_SIZE) :: cint)
      in if 511 <s temp then (MEMFAIL, caller_page) else (MEMSUCC, caller_page))"

definition Min :: "cint \<Rightarrow> cint \<Rightarrow> cint" where
  "Min num1 num2 = (if num1 <s num2 then num1 else num2)"

subsection \<open>Operations\<close>

text \<open>
  The loop of \<^verbatim>\<open>ReadData\<close>: \<^verbatim>\<open>for( count=0 ; count<NumBytes ; count++ )\<close> with
  \<^verbatim>\<open>count\<close> an \<^verbatim>\<open>unsigned long\<close>, so the comparison reads \<^verbatim>\<open>NumBytes\<close> as
  unsigned too; the caller passes \<open>unat NumBytes\<close>. The buffer \<^verbatim>\<open>data\<close> is the
  memory behind the caller's pointer, cell by cell.
\<close>

function ReadData_loop ::
  "env \<Rightarrow> nat \<Rightarrow> nat \<Rightarrow> (nat \<Rightarrow> short) \<Rightarrow> hw \<Rightarrow> short \<times> (nat \<Rightarrow> short) \<times> hw" where
  "ReadData_loop e count NumBytes data s =
     (if count < NumBytes
      then (let (r, TData, s1) = ReadByte e s
            in if r \<noteq> 0 then (MEMFAIL, data, s1)
               else ReadData_loop e (Suc count) NumBytes (data(count := TData)) s1)
      else (MEMSUCC, data, s))"
  by pat_completeness auto
termination
  by (relation "measure (\<lambda>(e, count, NumBytes, data, s). NumBytes - count)") auto

declare ReadData_loop.simps [simp del]

definition ReadData ::
  "env \<Rightarrow> short \<Rightarrow> long \<Rightarrow> long \<Rightarrow> (nat \<Rightarrow> short) \<Rightarrow> hw \<Rightarrow> short \<times> (nat \<Rightarrow> short) \<times> hw" where
  "ReadData e chip Address NumBytes data s =
     (let (r1, s1) = SendCommandAndAddress e chip MREAD Address s
      in if r1 \<noteq> 0 then (MEMFAIL, data, s1)
         else let (r2, data2, s2) = ReadData_loop e 0 (unat NumBytes) data s1
              in if r2 \<noteq> 0 then (MEMFAIL, data2, s2)
                 else let (r3, s3) = SetCS e chip s2
                      in if r3 \<noteq> 0 then (MEMFAIL, data2, s3) else (MEMSUCC, data2, s3))"

definition WakeMem :: "env \<Rightarrow> short \<Rightarrow> hw \<Rightarrow> short \<times> hw" where
  "WakeMem e chip s =
     (let (r1, s1) = SendCommandAndAddress e chip MRDID 0x00A5A5A5 s
      in if r1 \<noteq> 0 then (MEMFAIL, s1)
         else let (r2, TData, s2) = ReadByte e s1
              in if r2 \<noteq> 0 then (MEMFAIL, s2)
                 else let (r3, s3) = SetCS e chip s2
                      in if r3 \<noteq> 0 then (MEMFAIL, s3)
                         else if TData \<noteq> MDEVICE then (MEMFAIL, s3)
                         else (MEMSUCC, s3))"

text \<open>
  \<^verbatim>\<open>if( WP_USED ) if( ClearWP( chip ) ) return MEMFAIL;\<close> comes first in
  \<^verbatim>\<open>SleepMem\<close> and last in \<^verbatim>\<open>InitMem\<close>; with \<^verbatim>\<open>WP_USED\<close> zero the pin is not
  touched.
\<close>

definition SleepMem :: "env \<Rightarrow> short \<Rightarrow> hw \<Rightarrow> short \<times> hw" where
  "SleepMem e chip s =
     (let (r0, s0) = (if WP_USED \<noteq> 0 then ClearWP e chip s else (MEMSUCC, s))
      in if r0 \<noteq> 0 then (MEMFAIL, s0)
         else let (r1, s1) = ClearCS e chip s0
              in if r1 \<noteq> 0 then (MEMFAIL, s1)
                 else let (r2, s2) = SendCommand e chip MDPD s1
                      in if r2 \<noteq> 0 then (MEMFAIL, s2)
                         else let (r3, s3) = SetCS e chip s2
                              in if r3 \<noteq> 0 then (MEMFAIL, s3) else (MEMSUCC, s3))"

text \<open>
  \<^verbatim>\<open>ReadMemStatus( chip, &st )\<close>: the third argument is what the caller's \<^verbatim>\<open>short\<close>
  holds at the call, the second component of the result what it holds at the return.
\<close>

definition ReadMemStatus :: "env \<Rightarrow> short \<Rightarrow> short \<Rightarrow> hw \<Rightarrow> short \<times> short \<times> hw" where
  "ReadMemStatus e chip status s =
     (let (r1, s1) = SendCommand e chip MRDSR s
      in if r1 \<noteq> 0 then (MEMFAIL, status, s1)
         else let (r2, temp, s2) = ReadByte e s1
              in if r2 \<noteq> 0 then (MEMFAIL, status, s2)
                 else (MEMSUCC, temp, s2))"

text \<open>
  \<^verbatim>\<open>WriteMemStatus( chip, &st )\<close> only reads \<^verbatim>\<open>*status\<close>; the third argument is
  that value. Its local \<^verbatim>\<open>new_status\<close> is not initialised and is read only after
  \<^verbatim>\<open>ReadMemStatus\<close> has succeeded and stored into it; the 0 below stands for its
  content before.
\<close>

definition WriteMemStatus :: "env \<Rightarrow> short \<Rightarrow> short \<Rightarrow> hw \<Rightarrow> short \<times> hw" where
  "WriteMemStatus e chip status s =
     (let temp = status;
          (r1, s1) = SetWP e chip s
      in if r1 \<noteq> 0 then (MEMFAIL, s1)
         else let (r2, s2) = SendCommand e chip MWRSR s1
              in if r2 \<noteq> 0 then (MEMFAIL, s2)
                 else let (r3, s3) = SendByte e temp s2
                      in if r3 \<noteq> 0 then (MEMFAIL, s3)
                         else let (r4, s4) = ClearWP e chip s3
                              in if r4 \<noteq> 0 then (MEMFAIL, s4)
                                 else let (r5, new_status, s5) = ReadMemStatus e chip 0 s4
                                      in if r5 \<noteq> 0 then (MEMFAIL, s5)
                                         else if temp AND 0x8C \<noteq> new_status AND 0x8C
                                              then (MEMFAIL, s5)
                                              else (MEMSUCC, s5))"

definition CheckWIP :: "env \<Rightarrow> short \<Rightarrow> hw \<Rightarrow> short \<times> hw" where
  "CheckWIP e chip s =
     (let (r, status, s1) = ReadMemStatus e chip 0 s
      in if r \<noteq> 0 then (MEMFAIL, s1)
         else if status AND push_bit MWIP 1 \<noteq> 0 then (MEMTRUE, s1)
         else (MEMFALSE, s1))"

text \<open>\<^verbatim>\<open>ContDDR |= (1<<CSn); ContDDR |= (1<<WPn);\<close> for the chip's own two lines.\<close>

definition set_dirs :: "short \<Rightarrow> short \<Rightarrow> hw \<Rightarrow> hw" where
  "set_dirs cs wp s =
     (let s1 = write_ContDDR (ContDDR s OR pin_mask cs) s
      in write_ContDDR (ContDDR s1 OR pin_mask wp) s1)"

definition clear_dirs :: "short \<Rightarrow> short \<Rightarrow> hw \<Rightarrow> hw" where
  "clear_dirs cs wp s =
     (let s1 = write_ContDDR (ContDDR s AND NOT (pin_mask cs)) s
      in write_ContDDR (ContDDR s1 AND NOT (pin_mask wp)) s1)"

definition InitMem :: "env \<Rightarrow> short \<Rightarrow> hw \<Rightarrow> short \<times> hw" where
  "InitMem e chip s =
     (if chip = 0 \<or> chip = 1 \<or> chip = 2 \<or> chip = 3
      then (let s1 = (if chip = 0 then set_dirs CS0 WP0 s
                      else if chip = 1 then set_dirs CS1 WP1 s
                      else if chip = 2 then set_dirs CS2 WP2 s
                      else set_dirs CS3 WP3 s);
                (r, s2) = (if WP_USED \<noteq> 0 then ClearWP e chip s1 else (MEMSUCC, s1))
            in if r \<noteq> 0 then (MEMFAIL, s2) else (MEMSUCC, s2))
      else (MEMFAIL, s))"

definition CloseMem :: "short \<Rightarrow> hw \<Rightarrow> hw" where
  "CloseMem chip s =
     (if chip = 0 then clear_dirs CS0 WP0 s
      else if chip = 1 then clear_dirs CS1 WP1 s
      else if chip = 2 then clear_dirs CS2 WP2 s
      else if chip = 3 then clear_dirs CS3 WP3 s
      else s)"

subsection \<open>Protection policy and the mutating operations\<close>

text \<open>
  Modelled from the spec: the error taxonomy of section 7. The driver's source has the
  single code \<^verbatim>\<open>MEMFAIL\<close>; the operations below, which the source only declares, report
  the kinds of fault the specification tells apart.
\<close>

datatype fault = BusFault | PinFault | ProtectionViolation | DeviceRejectedWrite | InvalidSelector

text \<open>
  Modelled from the spec: the result of an operation the source only declares: the fault
  or success, with the hardware as the operation left it; \<open>None\<close> stands for a busy poll
  that used up its bound.
\<close>

type_synonym outcome = "((fault + unit) \<times> hw) option"

text \<open>
  Modelled from the spec: the table of section 6, "block-protection highest-unprotected-address
  table: level 0 -> 0x01FFFF, level 1 -> 0x017FFF, level 2 -> 0x00FFFF, level 3 ->
  0x000000", over the header's constants \<^verbatim>\<open>BP00\<close>, \<^verbatim>\<open>BP01\<close>, \<^verbatim>\<open>BP10\<close>, \<^verbatim>\<open>BP11\<close>. The
  source declares \<^verbatim>\<open>CheckProtect\<close> and does not define it.
\<close>

definition unprotectedBound :: "nat \<Rightarrow> nat" where
  "unprotectedBound L =
     (if L = 0 then BP00 else if L = 1 then BP01 else if L = 2 then BP10 else BP11)"

text \<open>
  Modelled from the spec: \<^verbatim>\<open>isProtected(blockProtectionLevel, address)\<close> of section 4.4,
  "a target address above that bound is protected"; it stands for the body of the
  declared \<^verbatim>\<open>CheckProtect\<close>.
\<close>

definition isProtected :: "nat \<Rightarrow> nat \<Rightarrow> bool" where
  "isProtected L a = (unprotectedBound L < a)"

text \<open>
  Modelled from the spec: a failed step of the byte framer is a bus fault, a failed
  verified line change a pin fault (section 7); a step that succeeded lets the operation
  go on.
\<close>

definition step :: "fault \<Rightarrow> short \<times> hw \<Rightarrow> outcome" where
  "step f rs = (case rs of (r, s) \<Rightarrow> if r \<noteq> 0 then Some (Inl f, s) else Some (Inr (), s))"

text \<open>
  Modelled from the spec: "any transport failure is fatal to the in-flight operation and
  is surfaced immediately" (section 4.2): the rest of an operation runs only after a step
  that succeeded.
\<close>

definition and_then :: "outcome \<Rightarrow> (hw \<Rightarrow> outcome) \<Rightarrow> outcome" where
  "and_then m f =
     (case m of
        None \<Rightarrow> None
      | Some (Inl err, s) \<Rightarrow> Some (Inl err, s)
      | Some (Inr u, s) \<Rightarrow> f s)"

text \<open>
  Modelled from the spec: \<^verbatim>\<open>endTransaction(chip)\<close> of section 4.2, "deselects chip".
\<close>

definition endTransaction :: "env \<Rightarrow> short \<Rightarrow> hw \<Rightarrow> outcome" where
  "endTransaction e chip s = step PinFault (SetCS e chip s)"

text \<open>
  Modelled from the spec: \<^verbatim>\<open>WriteEnable(chip)\<close> of section 4.5, a "single-opcode
  command" that arms the latch: the opcode 0x06 framed as one transaction. The source
  declares \<^verbatim>\<open>WriteEnable\<close> and does not define it.
\<close>

definition WriteEnable :: "env \<Rightarrow> short \<Rightarrow> hw \<Rightarrow> outcome" where
  "WriteEnable e chip s =
     and_then (step BusFault (SendCommand e chip MWREN s)) (endTransaction e chip)"

text \<open>
  Modelled from the spec: the busy poll of sections 4.3 and 9, "callers must poll this
  after every mutating command until it clears", "an explicit blocking loop with
  caller-supplied or default iteration bound". \<^verbatim>\<open>isBusy\<close> is the source's
  \<^verbatim>\<open>CheckWIP\<close>; the bound is the first argument, and \<open>None\<close> is the poll that has not
  seen the device ready within the bound. Once the device is ready the chip is deselected
  (the state machine of section 4.5 ends in Idle).
\<close>

fun busy_poll :: "nat \<Rightarrow> env \<Rightarrow> short \<Rightarrow> hw \<Rightarrow> outcome" where
  "busy_poll 0 e chip s = None"
| "busy_poll (Suc n) e chip s =
     (case CheckWIP e chip s of
        (r, s1) \<Rightarrow>
          if r = MEMFAIL then Some (Inl BusFault, s1)
          else if r = MEMTRUE then busy_poll n e chip s1
          else endTransaction e chip s1)"

text \<open>
  Modelled from the spec: a framed erase command with its address, for
  \<^verbatim>\<open>ErasePage\<close> and \<^verbatim>\<open>EraseSector\<close> of section 4.5: "validate protection,
  WriteEnable, issue the erase opcode (with address for page/sector, opcode-only for
  chip), then busy-poll to completion". The protection check comes before the
  write-enable (section 4.4). L is the current block-protection configuration. The source
  declares both operations and defines neither.
\<close>

definition erase_at :: "short \<Rightarrow> nat \<Rightarrow> env \<Rightarrow> short \<Rightarrow> nat \<Rightarrow> nat \<Rightarrow> hw \<Rightarrow> outcome" where
  "erase_at opcode bound e chip L Address s =
     (if isProtected L Address then Some (Inl ProtectionViolation, s)
      else and_then (WriteEnable e chip s) (\<lambda>s1.
           and_then (step BusFault (SendCommandAndAddress e chip opcode (word_of_nat Address) s1)) (\<lambda>s2.
           and_then (endTransaction e chip s2) (\<lambda>s3.
           busy_poll bound e chip s3))))"

text \<open>
  Modelled from the spec: \<^verbatim>\<open>ErasePage\<close> of section 4.5, the framed erase with the
  page-erase opcode 0x42.
\<close>

definition ErasePage :: "nat \<Rightarrow> env \<Rightarrow> short \<Rightarrow> nat \<Rightarrow> nat \<Rightarrow> hw \<Rightarrow> outcome" where
  "ErasePage = erase_at MPE"

text \<open>
  Modelled from the spec: \<^verbatim>\<open>EraseSector\<close> of section 4.5, the framed erase with the
  sector-erase opcode 0xD8.
\<close>

definition EraseSector :: "nat \<Rightarrow> env \<Rightarrow> short \<Rightarrow> nat \<Rightarrow> nat \<Rightarrow> hw \<Rightarrow> outcome" where
  "EraseSector = erase_at MSE"

text \<open>
  Modelled from the spec: \<^verbatim>\<open>EraseChip\<close> of section 4.5, "for chip erase, validate that
  the entire array is unprotected": its target is every address up to \<^verbatim>\<open>MEMSIZE\<close>, the
  last one. The source declares \<^verbatim>\<open>EraseChip\<close> and does not define it.
\<close>

definition EraseChip :: "nat \<Rightarrow> env \<Rightarrow> short \<Rightarrow> nat \<Rightarrow> hw \<Rightarrow> outcome" where
  "EraseChip bound e chip L s =
     (if list_ex (isProtected L) [0 ..< Suc MEMSIZE] then Some (Inl ProtectionViolation, s)
      else and_then (WriteEnable e chip s) (\<lambda>s1.
           and_then (step BusFault (SendCommand e chip MCE s1)) (\<lambda>s2.
           and_then (endTransaction e chip s2) (\<lambda>s3.
           busy_poll bound e chip s3))))"

text \<open>
  Modelled from the spec: the payload of a page write, sent byte by byte with the
  source's \<^verbatim>\<open>SendByte\<close>; the first failure ends it.
\<close>

fun send_bytes :: "env \<Rightarrow> short list \<Rightarrow> hw \<Rightarrow> outcome" where
  "send_bytes e [] s = Some (Inr (), s)"
| "send_bytes e (b # bs) s = and_then (step BusFault (SendByte e b s)) (send_bytes e bs)"

text \<open>
  Modelled from the spec: one page-write transaction of \<^verbatim>\<open>Write\<close> (section 4.5), "each
  chunk preceded by its own WriteEnable and followed by a busy-poll to completion".
\<close>

definition write_page :: "nat \<Rightarrow> env \<Rightarrow> short \<Rightarrow> nat \<Rightarrow> short list \<Rightarrow> hw \<Rightarrow> outcome" where
  "write_page bound e chip Address chunk s =
     and_then (WriteEnable e chip s) (\<lambda>s1.
     and_then (step BusFault (SendCommandAndAddress e chip MWRITE (word_of_nat Address) s1)) (\<lambda>s2.
     and_then (send_bytes e chunk s2) (\<lambda>s3.
     and_then (endTransaction e chip s3) (\<lambda>s4.
     busy_poll bound e chip s4))))"

text \<open>
  Modelled from the spec: the splitting of \<^verbatim>\<open>Write\<close> (section 4.5), "the Orchestrator
  computes bytes-remaining-to-page-boundary and issues one page-write transaction per
  chunk".
\<close>

function write_chunks :: "nat \<Rightarrow> env \<Rightarrow> short \<Rightarrow> nat \<Rightarrow> short list \<Rightarrow> hw \<Rightarrow> outcome" where
  "write_chunks bound e chip Address bytes s =
     (if bytes = [] then Some (Inr (), s)
      else let n = min (length bytes) (unat PAGE_SIZE - Address mod unat PAGE_SIZE)
           in case write_page bound e chip Address (take n bytes) s of
                None \<Rightarrow> None
              | Some (Inl err, s1) \<Rightarrow> Some (Inl err, s1)
              | Some (Inr u, s1) \<Rightarrow> write_chunks bound e chip (Address + n) (drop n bytes) s1)"
  by pat_completeness auto
termination
  by (relation "measure (\<lambda>(bound, e, chip, Address, bytes, s). length bytes)")
     (auto simp: min_def PAGE_SIZE_def)

declare write_chunks.simps [simp del]

text \<open>
  Modelled from the spec: \<^verbatim>\<open>Write(chip, address, bytes)\<close> of section 4.5, "validate
  protection for the full target range; split the payload at page boundaries". The source
  declares \<^verbatim>\<open>WriteData\<close> and does not define it.
\<close>

definition WriteData :: "nat \<Rightarrow> env \<Rightarrow> short \<Rightarrow> nat \<Rightarrow> nat \<Rightarrow> short list \<Rightarrow> hw \<Rightarrow> outcome" where
  "WriteData bound e chip L Address bytes s =
     (if list_ex (isProtected L) [Address ..< Address + length bytes]
      then Some (Inl ProtectionViolation, s)
      else write_chunks bound e chip Address bytes s)"

subsection \<open>Vocabulary for the statements\<close>

text \<open>
  Byte k of an address as section 3 of the specification words it: bits 8k+7 down to 8k
  of the address read as an unsigned number.
\<close>

definition addr_byte :: "long \<Rightarrow> nat \<Rightarrow> short" where
  "addr_byte Address k = word_of_nat (unat Address div 2 ^ (8 * k) mod 256)"

text \<open>The next n calls of the SPI write (read) primitive, from call k on, all succeed.\<close>

primrec writes_ok :: "env \<Rightarrow> nat \<Rightarrow> nat \<Rightarrow> bool" where
  "writes_ok e k 0 = True"
| "writes_ok e k (Suc n) = (SPI_Write_Byte e k = 0 \<and> writes_ok e (Suc k) n)"

primrec reads_ok :: "env \<Rightarrow> nat \<Rightarrow> nat \<Rightarrow> bool" where
  "reads_ok e k 0 = True"
| "reads_ok e k (Suc n) = (fst (SPI_Read_Byte e k) = 0 \<and> reads_ok e (Suc k) n)"

text \<open>The values n successful reads deliver from call k on, and their log entries.\<close>

primrec read_values :: "env \<Rightarrow> nat \<Rightarrow> nat \<Rightarrow> short list" where
  "read_values e k 0 = []"
| "read_values e k (Suc n) = snd (SPI_Read_Byte e k) # read_values e (Suc k) n"

definition read_events :: "env \<Rightarrow> nat \<Rightarrow> nat \<Rightarrow> event list" where
  "read_events e k n = map (SpiRead 0) (read_values e k n)"

text \<open>The level the driver has last driven on a line of port A.\<close>

definition driven_high :: "hw \<Rightarrow> short \<Rightarrow> bool" where
  "driven_high s pin = bit (ContPort s) (unat pin)"

text \<open>
  The values written to \<^verbatim>\<open>PORTA\<close> and the bytes handed to the SPI write primitive,
  read off a log.
\<close>

primrec port_writes :: "event list \<Rightarrow> reg8 list" where
  "port_writes [] = []"
| "port_writes (ev # evs) =
     (case ev of PortWrite v \<Rightarrow> v # port_writes evs | _ \<Rightarrow> port_writes evs)"

primrec spi_sent :: "event list \<Rightarrow> short list" where
  "spi_sent [] = []"
| "spi_sent (ev # evs) =
     (case ev of SpiWrite b r \<Rightarrow> b # spi_sent evs | _ \<Rightarrow> spi_sent evs)"

text \<open>Concrete hardware for the examples: all lines high, nothing done yet.\<close>

definition hw_idle :: hw where
  "hw_idle = \<lparr>ContPort = 0xFF, ContDDR = 0xFF, pin_reads = 0, spi_writes = 0,
               spi_reads = 0, trace = []\<rparr>"

text \<open>
  A bus for the examples: the k-th read of \<^verbatim>\<open>PINA\<close> gives the k-th entry of the
  list (0xFF once the list is used up), every SPI write returns the status w, every SPI
  read returns the pair r of status and byte.
\<close>

definition bus :: "reg8 list \<Rightarrow> short \<Rightarrow> short \<times> short \<Rightarrow> env" where
  "bus pins w r =
     \<lparr>RContPort = (\<lambda>k. if k < length pins then pins ! k else 0xFF),
      SPI_Write_Byte = (\<lambda>k. w),
      SPI_Read_Byte = (\<lambda>k. r)\<rparr>"

section \<open>Properties\<close>

subsection \<open>Results and lines\<close>

lemma MEM_codes [simp]: "MEMFAIL \<noteq> 0" "MEMSUCC = 0" "MEMFAIL \<noteq> MEMSUCC"
  by (simp_all add: MEMFAIL_def MEMSUCC_def)

lemma GetCS_range: "GetCS chip = 0 \<or> GetCS chip = 1 \<or> GetCS chip = 2 \<or> GetCS chip = 3"
  by (simp add: GetCS_def CS0_def CS1_def CS2_def CS3_def)

lemma GetWP_range: "GetWP chip = 4 \<or> GetWP chip = 5 \<or> GetWP chip = 6 \<or> GetWP chip = 7"
  by (simp add: GetWP_def WP0_def WP1_def WP2_def WP3_def)

lemma unat_GetCS_less: "unat (GetCS chip) < 8"
  using GetCS_range [of chip] by auto

lemma unat_GetWP_less: "unat (GetWP chip) < 8"
  using GetWP_range [of chip] by auto

lemma GetCS_neq_GetWP: "GetCS chip \<noteq> GetWP chip'"
  using GetCS_range [of chip] GetWP_range [of chip'] by auto

lemma pin_test:
  "unat pin < 8 \<Longrightarrow>
   ((ucast (v :: reg8) :: short) AND pin_mask16 pin = 0) = (\<not> bit v (unat pin))"
  by (simp add: pin_mask16_def and_exp_eq_0_iff_not_bit bit_ucast_iff)

lemma bit_set_pin: "unat pin < 8 \<Longrightarrow> bit (x OR pin_mask pin) (unat pin)"
  by (simp add: pin_mask_def bit_or_iff bit_exp_iff)

lemma bit_clear_pin: "unat pin < 8 \<Longrightarrow> \<not> bit (x AND NOT (pin_mask pin)) (unat pin)"
  by (simp add: pin_mask_def bit_and_iff bit_not_iff bit_exp_iff)

subsection \<open>Reading the log\<close>

lemma port_writes_append [simp]: "port_writes (xs @ ys) = port_writes xs @ port_writes ys"
  by (induction xs) (auto split: event.splits)

lemma spi_sent_append [simp]: "spi_sent (xs @ ys) = spi_sent xs @ spi_sent ys"
  by (induction xs) (auto split: event.splits)

subsection \<open>What each primitive does, in closed form\<close>

lemma SetCS_eq:
  "SetCS e chip s =
     (if bit (RContPort e (pin_reads s)) (unat (GetCS chip)) then MEMSUCC else MEMFAIL,
      s\<lparr>ContPort := ContPort s OR pin_mask (GetCS chip),
        pin_reads := Suc (pin_reads s),
        trace := trace s @ [PortWrite (ContPort s OR pin_mask (GetCS chip)),
                            PinRead (RContPort e (pin_reads s))]\<rparr>)"
  by (simp add: SetCS_def write_ContPort_def read_RContPort_def Let_def pin_test unat_GetCS_less)

lemma ClearCS_eq:
  "ClearCS e chip s =
     (if bit (RContPort e (pin_reads s)) (unat (GetCS chip)) then MEMFAIL else MEMSUCC,
      s\<lparr>ContPort := ContPort s AND NOT (pin_mask (GetCS chip)),
        pin_reads := Suc (pin_reads s),
        trace := trace s @ [PortWrite (ContPort s AND NOT (pin_mask (GetCS chip))),
                            PinRead (RContPort e (pin_reads s))]\<rparr>)"
  by (simp add: ClearCS_def write_ContPort_def read_RContPort_def Let_def pin_test unat_GetCS_less)

lemma SetWP_eq:
  "SetWP e chip s =
     (if bit (RContPort e (pin_reads s)) (unat (GetWP chip)) then MEMSUCC else MEMFAIL,
      s\<lparr>ContPort := ContPort s OR pin_mask (GetWP chip),
        pin_reads := Suc (pin_reads s),
        trace := trace s @ [PortWrite (ContPort s OR pin_mask (GetWP chip)),
                            PinRead (RContPort e (pin_reads s))]\<rparr>)"
  by (simp add: SetWP_def write_ContPort_def read_RContPort_def Let_def pin_test unat_GetWP_less)

lemma ClearWP_eq:
  "ClearWP e chip s =
     (if bit (RContPort e (pin_reads s)) (unat (GetWP chip)) then MEMFAIL else MEMSUCC,
      s\<lparr>ContPort := ContPort s AND NOT (pin_mask (GetWP chip)),
        pin_reads := Suc (pin_reads s),
        trace := trace s @ [PortWrite (ContPort s AND NOT (pin_mask (GetWP chip))),
                            PinRead (RContPort e (pin_reads s))]\<rparr>)"
  by (simp add: ClearWP_def write_ContPort_def read_RContPort_def Let_def pin_test unat_GetWP_less)

lemma SendByte_eq:
  "SendByte e byte s =
     (if SPI_Write_Byte e (spi_writes s) = 0 then MEMSUCC else MEMFAIL,
      s\<lparr>spi_writes := Suc (spi_writes s),
        trace := trace s @ [SpiWrite byte (SPI_Write_Byte e (spi_writes s))]\<rparr>)"
  by (simp add: SendByte_def call_SPI_Write_Byte_def Let_def)

lemma ReadByte_eq:
  "ReadByte e s =
     (if fst (SPI_Read_Byte e (spi_reads s)) = 0 then MEMSUCC else MEMFAIL,
      snd (SPI_Read_Byte e (spi_reads s)),
      s\<lparr>spi_reads := Suc (spi_reads s),
        trace := trace s @ [SpiRead (fst (SPI_Read_Byte e (spi_reads s)))
                                    (snd (SPI_Read_Byte e (spi_reads s)))]\<rparr>)"
  by (cases "SPI_Read_Byte e (spi_reads s)") (simp add: ReadByte_def call_SPI_Read_Byte_def)

lemma SendCommand_eq:
  "SendCommand e chip Command s =
     (if SPI_Write_Byte e (spi_writes s) = 0 then MEMSUCC else MEMFAIL,
      s\<lparr>ContPort := ContPort s AND NOT (pin_mask (GetCS chip)),
        pin_reads := Suc (pin_reads s),
        spi_writes := Suc (spi_writes s),
        trace := trace s @ [PortWrite (ContPort s AND NOT (pin_mask (GetCS chip))),
                            PinRead (RContPort e (pin_reads s)),
                            SpiWrite Command (SPI_Write_Byte e (spi_writes s))]\<rparr>)"
  by (simp add: SendCommand_def ClearCS_eq SendByte_eq)

subsection \<open>The three bytes of an address\<close>

lemma ff_mask: "(0xFF :: long) = mask 8"
  by (simp add: mask_eq_exp_minus_1)

lemma take_drop_byte:
  "(ucast (take_bit 8 (drop_bit n (A::long))) :: short) = word_of_nat (unat A div 2 ^ n mod 256)"
proof -
  have "unat (ucast (take_bit 8 (drop_bit n A)) :: short)
          = take_bit 8 (take_bit 16 (drop_bit n (unat A)))"
    by (simp only: unsigned_ucast_eq unsigned_take_bit_eq unat_drop_bit_eq len_bit0 len_num1
          mult_numeral_1_right numeral_times_numeral semiring_norm)
  also have "\<dots> = unat A div 2 ^ n mod 256"
    by (simp add: drop_bit_eq_div take_bit_eq_mod mod_mod_cancel)
  finally have "unat (ucast (take_bit 8 (drop_bit n A)) :: short) = unat A div 2 ^ n mod 256" .
  then have "(word_of_nat (unat (ucast (take_bit 8 (drop_bit n A)) :: short)) :: short)
               = word_of_nat (unat A div 2 ^ n mod 256)"
    by (rule arg_cong)
  then show ?thesis
    by simp
qed

lemma hi_byte: "(ucast (signed_drop_bit 16 (A::long) AND 0xFF) :: short) = addr_byte A 2"
proof -
  have "(ucast (signed_drop_bit 16 A AND 0xFF) :: short) = ucast (take_bit 8 (drop_bit 16 A))"
    unfolding ff_mask
    by (rule bit_word_eqI)
       (auto simp: bit_ucast_iff bit_and_iff bit_mask_iff bit_signed_drop_bit_iff
          bit_take_bit_iff bit_drop_bit_eq)
  then show ?thesis by (simp add: take_drop_byte addr_byte_def)
qed

lemma mid_byte: "(ucast (signed_drop_bit 8 (A::long) AND 0xFF) :: short) = addr_byte A 1"
proof -
  have "(ucast (signed_drop_bit 8 A AND 0xFF) :: short) = ucast (take_bit 8 (drop_bit 8 A))"
    unfolding ff_mask
    by (rule bit_word_eqI)
       (auto simp: bit_ucast_iff bit_and_iff bit_mask_iff bit_signed_drop_bit_iff
          bit_take_bit_iff bit_drop_bit_eq)
  then show ?thesis by (simp add: take_drop_byte addr_byte_def)
qed

lemma lo_byte: "(ucast ((A::long) AND 0xFF) :: short) = addr_byte A 0"
proof -
  have "(ucast (A AND 0xFF) :: short) = ucast (take_bit 8 (drop_bit 0 A))"
    unfolding ff_mask
    by (rule bit_word_eqI)
       (auto simp: bit_ucast_iff bit_and_iff bit_mask_iff bit_take_bit_iff)
  then show ?thesis using take_drop_byte [of 0 A] by (simp add: addr_byte_def)
qed

subsection \<open>Command framing and the read loop\<close>

lemma writes_ok_4:
  "writes_ok e k 4 =
     (SPI_Write_Byte e k = 0 \<and> SPI_Write_Byte e (Suc k) = 0 \<and>
      SPI_Write_Byte e (Suc (Suc k)) = 0 \<and> SPI_Write_Byte e (Suc (Suc (Suc k))) = 0)"
  by (simp add: eval_nat_numeral)

lemma SendAddress_unfold:
  "SendAddress e chip Address s =
     (let (r1, s1) = SendByte e (addr_byte Address 2) s
      in if r1 \<noteq> 0 then (MEMFAIL, s1)
         else let (r2, s2) = SendByte e (addr_byte Address 1) s1
              in if r2 \<noteq> 0 then (MEMFAIL, s2)
                 else let (r3, s3) = SendByte e (addr_byte Address 0) s2
                      in if r3 \<noteq> 0 then (MEMFAIL, s3) else (MEMSUCC, s3))"
  apply (unfold SendAddress_def Let_def)
  apply (unfold hi_byte mid_byte)
  apply (unfold lo_byte)
  apply (rule refl)
  done

lemmas SCA_unfold = SendCommandAndAddress_def SendAddress_unfold SendCommand_eq SendByte_eq

lemma SCA_status:
  "fst (SendCommandAndAddress e chip cmd A s) =
     (if writes_ok e (spi_writes s) 4 then MEMSUCC else MEMFAIL)"
  by (simp add: SCA_unfold writes_ok_4)

lemma SCA_ContPort:
  "ContPort (snd (SendCommandAndAddress e chip cmd A s)) = ContPort s AND NOT (pin_mask (GetCS chip))"
  by (simp add: SCA_unfold)

lemma SCA_pin_reads:
  "pin_reads (snd (SendCommandAndAddress e chip cmd A s)) = Suc (pin_reads s)"
  by (simp add: SCA_unfold)

lemma SCA_spi_reads:
  "spi_reads (snd (SendCommandAndAddress e chip cmd A s)) = spi_reads s"
  by (simp add: SCA_unfold)

lemma SCA_port_writes:
  "port_writes (trace (snd (SendCommandAndAddress e chip cmd A s))) =
     port_writes (trace s) @ [ContPort s AND NOT (pin_mask (GetCS chip))]"
  by (simp add: SCA_unfold)

lemma SCA_ok:
  "writes_ok e (spi_writes s) 4 \<Longrightarrow>
   SendCommandAndAddress e chip cmd A s =
     (MEMSUCC,
      s\<lparr>ContPort := ContPort s AND NOT (pin_mask (GetCS chip)),
        pin_reads := Suc (pin_reads s),
        spi_writes := spi_writes s + 4,
        trace := trace s @ [PortWrite (ContPort s AND NOT (pin_mask (GetCS chip))),
                            PinRead (RContPort e (pin_reads s)),
                            SpiWrite cmd 0, SpiWrite (addr_byte A 2) 0,
                            SpiWrite (addr_byte A 1) 0, SpiWrite (addr_byte A 0) 0]\<rparr>)"
  by (simp add: SCA_unfold writes_ok_4)

lemma loop_unfold:
  "ReadData_loop e c N d s =
     (if c < N
      then if fst (SPI_Read_Byte e (spi_reads s)) \<noteq> 0
           then (MEMFAIL, d, snd (snd (ReadByte e s)))
           else ReadData_loop e (Suc c) N (d(c := snd (SPI_Read_Byte e (spi_reads s))))
                  (snd (snd (ReadByte e s)))
      else (MEMSUCC, d, s))"
  by (subst ReadData_loop.simps) (simp add: ReadByte_eq)

lemma ReadByte_state:
  "snd (snd (ReadByte e s)) =
     s\<lparr>spi_reads := Suc (spi_reads s),
       trace := trace s @ [SpiRead (fst (SPI_Read_Byte e (spi_reads s)))
                                   (snd (SPI_Read_Byte e (spi_reads s)))]\<rparr>"
  by (simp add: ReadByte_eq)

lemma loop_frame:
  "ContPort (snd (snd (ReadData_loop e c N d s))) = ContPort s \<and>
   pin_reads (snd (snd (ReadData_loop e c N d s))) = pin_reads s \<and>
   spi_writes (snd (snd (ReadData_loop e c N d s))) = spi_writes s \<and>
   port_writes (trace (snd (snd (ReadData_loop e c N d s)))) = port_writes (trace s) \<and>
   spi_sent (trace (snd (snd (ReadData_loop e c N d s)))) = spi_sent (trace s)"
proof (induction "N - c" arbitrary: c d s)
  case 0
  then show ?case by (subst loop_unfold, subst loop_unfold, subst loop_unfold, subst loop_unfold, subst loop_unfold) simp
next
  case (Suc n)
  then have "n = N - Suc c" "c < N" by simp_all
  with Suc.hyps(1) [of "Suc c"] show ?case
    by (subst loop_unfold, subst (2) loop_unfold, subst (3) loop_unfold,
        subst (4) loop_unfold, subst (5) loop_unfold) (simp add: ReadByte_state)
qed

lemma loop_status:
  "fst (ReadData_loop e c N d s) =
     (if reads_ok e (spi_reads s) (N - c) then MEMSUCC else MEMFAIL)"
proof (induction "N - c" arbitrary: c d s)
  case 0
  then show ?case by (subst loop_unfold) simp
next
  case (Suc n)
  then have n: "n = N - Suc c" "c < N" by simp_all
  show ?case
    using Suc.hyps(1) [OF n(1)] n(2) Suc.hyps(2) [symmetric] n(1) [symmetric]
    by (subst loop_unfold) (simp add: ReadByte_state)
qed

lemma loop_ok:
  "reads_ok e (spi_reads s) (N - c) \<Longrightarrow>
   ReadData_loop e c N d s =
     (MEMSUCC,
      (\<lambda>i. if c \<le> i \<and> i < N then snd (SPI_Read_Byte e (spi_reads s + (i - c))) else d i),
      s\<lparr>spi_reads := spi_reads s + (N - c),
        trace := trace s @ read_events e (spi_reads s) (N - c)\<rparr>)"
proof (induction "N - c" arbitrary: c d s)
  case 0
  then show ?case by (subst loop_unfold) (auto simp add: read_events_def fun_eq_iff)
next
  case (Suc n)
  then have n: "n = N - Suc c" "c < N" by simp_all
  from Suc.prems Suc.hyps(2) [symmetric] have ok: "fst (SPI_Read_Byte e (spi_reads s)) = 0"
    "reads_ok e (Suc (spi_reads s)) n" by simp_all
  define s1 where "s1 = snd (snd (ReadByte e s))"
  define d1 where "d1 = d(c := snd (SPI_Read_Byte e (spi_reads s)))"
  have s1: "s1 = s\<lparr>spi_reads := Suc (spi_reads s),
                   trace := trace s @ [SpiRead 0 (snd (SPI_Read_Byte e (spi_reads s)))]\<rparr>"
    using ok by (simp add: s1_def ReadByte_state)
  then have sr: "spi_reads s1 = Suc (spi_reads s)" by simp
  have "reads_ok e (spi_reads s1) (N - Suc c)"
    using ok n sr by simp
  from Suc.hyps(1) [OF n(1) this, of d1]
  have ih: "ReadData_loop e (Suc c) N d1 s1 =
     (MEMSUCC,
      (\<lambda>i. if Suc c \<le> i \<and> i < N
            then snd (SPI_Read_Byte e (Suc (spi_reads s) + (i - Suc c))) else d1 i),
      s1\<lparr>spi_reads := Suc (spi_reads s) + (N - Suc c),
         trace := trace s1 @ read_events e (Suc (spi_reads s)) (N - Suc c)\<rparr>)"
    unfolding sr .
  have fn: "(\<lambda>i. if Suc c \<le> i \<and> i < N
                   then snd (SPI_Read_Byte e (Suc (spi_reads s) + (i - Suc c))) else d1 i)
            = (\<lambda>i. if c \<le> i \<and> i < N
                   then snd (SPI_Read_Byte e (spi_reads s + (i - c))) else d i)"
  proof (rule ext)
    fix i
    show "(if Suc c \<le> i \<and> i < N
           then snd (SPI_Read_Byte e (Suc (spi_reads s) + (i - Suc c))) else d1 i)
        = (if c \<le> i \<and> i < N
           then snd (SPI_Read_Byte e (spi_reads s + (i - c))) else d i)"
    proof (cases "Suc c \<le> i \<and> i < N")
      case True
      then have "Suc (spi_reads s) + (i - Suc c) = spi_reads s + (i - c)" by arith
      with True show ?thesis by simp
    next
      case False
      with n(2) show ?thesis by (cases "i = c") (auto simp: d1_def)
    qed
  qed
  have st: "s1\<lparr>spi_reads := Suc (spi_reads s) + (N - Suc c),
              trace := trace s1 @ read_events e (Suc (spi_reads s)) (N - Suc c)\<rparr>
          = s\<lparr>spi_reads := spi_reads s + (N - c),
              trace := trace s @ read_events e (spi_reads s) (N - c)\<rparr>"
    using Suc.hyps(2) [symmetric] n(1) [symmetric] by (simp add: s1 read_events_def)
  have "ReadData_loop e c N d s = ReadData_loop e (Suc c) N d1 s1"
    using ok n(2) by (subst loop_unfold) (simp add: s1_def d1_def)
  then show ?case
    by (simp only: ih fn st)
qed

subsection \<open>ReadMemStatus, WakeMem, ReadData, SleepMem and WriteMemStatus in closed form\<close>

lemma ReadMemStatus_eq:
  "ReadMemStatus e chip st s =
     (if SPI_Write_Byte e (spi_writes s) = 0 \<and> fst (SPI_Read_Byte e (spi_reads s)) = 0
      then MEMSUCC else MEMFAIL,
      if SPI_Write_Byte e (spi_writes s) = 0 \<and> fst (SPI_Read_Byte e (spi_reads s)) = 0
      then snd (SPI_Read_Byte e (spi_reads s)) else st,
      if SPI_Write_Byte e (spi_writes s) = 0
      then snd (snd (ReadByte e (snd (SendCommand e chip MRDSR s))))
      else snd (SendCommand e chip MRDSR s))"
  by (simp add: ReadMemStatus_def SendCommand_eq ReadByte_eq)

lemma WakeMem_status:
  "fst (WakeMem e chip s) =
     (if writes_ok e (spi_writes s) 4 \<and> fst (SPI_Read_Byte e (spi_reads s)) = 0 \<and>
         bit (RContPort e (Suc (pin_reads s))) (unat (GetCS chip)) \<and>
         snd (SPI_Read_Byte e (spi_reads s)) = MDEVICE
      then MEMSUCC else MEMFAIL)"
  using SCA_status [of e chip MRDID "0x00A5A5A5" s] SCA_pin_reads [of e chip MRDID "0x00A5A5A5" s]
    SCA_spi_reads [of e chip MRDID "0x00A5A5A5" s]
  by (simp add: WakeMem_def split_def Let_def ReadByte_eq SetCS_eq)

lemma WakeMem_ok_state:
  "writes_ok e (spi_writes s) 4 \<Longrightarrow> fst (SPI_Read_Byte e (spi_reads s)) = 0 \<Longrightarrow>
   snd (WakeMem e chip s) =
     s\<lparr>ContPort := ContPort s AND NOT (pin_mask (GetCS chip)) OR pin_mask (GetCS chip),
       pin_reads := pin_reads s + 2,
       spi_writes := spi_writes s + 4,
       spi_reads := Suc (spi_reads s),
       trace := trace s @
         [PortWrite (ContPort s AND NOT (pin_mask (GetCS chip))),
          PinRead (RContPort e (pin_reads s)),
          SpiWrite 0xAB 0, SpiWrite 0xA5 0, SpiWrite 0xA5 0, SpiWrite 0xA5 0,
          SpiRead 0 (snd (SPI_Read_Byte e (spi_reads s))),
          PortWrite (ContPort s AND NOT (pin_mask (GetCS chip)) OR pin_mask (GetCS chip)),
          PinRead (RContPort e (Suc (pin_reads s)))]\<rparr>"
  by (simp add: WakeMem_def SCA_ok ReadByte_eq SetCS_eq MRDID_def addr_byte_def)

lemma WakeMem_fail_state:
  "\<not> (writes_ok e (spi_writes s) 4 \<and> fst (SPI_Read_Byte e (spi_reads s)) = 0) \<Longrightarrow>
   ContPort (snd (WakeMem e chip s)) = ContPort s AND NOT (pin_mask (GetCS chip))"
  using SCA_status [of e chip MRDID "0x00A5A5A5" s] SCA_ContPort [of e chip MRDID "0x00A5A5A5" s]
    SCA_spi_reads [of e chip MRDID "0x00A5A5A5" s]
  by (auto simp add: WakeMem_def split_def Let_def ReadByte_eq split: if_splits)

lemma ReadData_status:
  "fst (ReadData e chip A N d s) =
     (if writes_ok e (spi_writes s) 4 \<and> reads_ok e (spi_reads s) (unat N) \<and>
         bit (RContPort e (Suc (pin_reads s))) (unat (GetCS chip))
      then MEMSUCC else MEMFAIL)"
  using SCA_status [of e chip MREAD A s] SCA_pin_reads [of e chip MREAD A s]
    SCA_spi_reads [of e chip MREAD A s]
    loop_frame [of e 0 "unat N" d "snd (SendCommandAndAddress e chip MREAD A s)"]
    loop_status [of e 0 "unat N" d "snd (SendCommandAndAddress e chip MREAD A s)"]
  by (simp add: ReadData_def split_def Let_def SetCS_eq)

lemma ReadData_fail_ContPort:
  "\<not> (writes_ok e (spi_writes s) 4 \<and> reads_ok e (spi_reads s) (unat N)) \<Longrightarrow>
   ContPort (snd (snd (ReadData e chip A N d s))) = ContPort s AND NOT (pin_mask (GetCS chip))"
  using SCA_status [of e chip MREAD A s] SCA_ContPort [of e chip MREAD A s]
    SCA_spi_reads [of e chip MREAD A s]
    loop_frame [of e 0 "unat N" d "snd (SendCommandAndAddress e chip MREAD A s)"]
    loop_status [of e 0 "unat N" d "snd (SendCommandAndAddress e chip MREAD A s)"]
  by (auto simp add: ReadData_def split_def Let_def split: if_splits)

lemma ReadData_ok:
  "writes_ok e (spi_writes s) 4 \<Longrightarrow> reads_ok e (spi_reads s) (unat N) \<Longrightarrow>
   snd (ReadData e chip A N d s) =
     ((\<lambda>i. if i < unat N then snd (SPI_Read_Byte e (spi_reads s + i)) else d i),
      s\<lparr>ContPort := ContPort s AND NOT (pin_mask (GetCS chip)) OR pin_mask (GetCS chip),
        pin_reads := pin_reads s + 2,
        spi_writes := spi_writes s + 4,
        spi_reads := spi_reads s + unat N,
        trace := trace s @
          [PortWrite (ContPort s AND NOT (pin_mask (GetCS chip))),
           PinRead (RContPort e (pin_reads s)),
           SpiWrite 0x03 0, SpiWrite (addr_byte A 2) 0,
           SpiWrite (addr_byte A 1) 0, SpiWrite (addr_byte A 0) 0] @
          read_events e (spi_reads s) (unat N) @
          [PortWrite (ContPort s AND NOT (pin_mask (GetCS chip)) OR pin_mask (GetCS chip)),
           PinRead (RContPort e (Suc (pin_reads s)))]\<rparr>)"
  by (simp add: ReadData_def SCA_ok loop_ok SetCS_eq MREAD_def cong: if_cong)

lemma SCA_sent:
  "spi_sent (trace (snd (SendCommandAndAddress e chip cmd A s))) =
     spi_sent (trace s) @
     take (if SPI_Write_Byte e (spi_writes s) \<noteq> 0 then 1
           else if SPI_Write_Byte e (Suc (spi_writes s)) \<noteq> 0 then 2
           else if SPI_Write_Byte e (Suc (Suc (spi_writes s))) \<noteq> 0 then 3 else 4)
       [cmd, addr_byte A 2, addr_byte A 1, addr_byte A 0]"
  by (simp add: SCA_unfold)

lemma ReadData_sent:
  "\<exists>k. spi_sent (trace (snd (snd (ReadData e chip A N d s)))) =
     spi_sent (trace s) @ take k [0x03, addr_byte A 2, addr_byte A 1, addr_byte A 0]"
proof -
  have "spi_sent (trace (snd (snd (ReadData e chip A N d s)))) =
          spi_sent (trace (snd (SendCommandAndAddress e chip MREAD A s)))"
    using loop_frame [of e 0 "unat N" d "snd (SendCommandAndAddress e chip MREAD A s)"]
    by (simp add: ReadData_def split_def Let_def SetCS_eq)
  then show ?thesis
    unfolding SCA_sent MREAD_def by blast
qed

lemma SleepMem_status:
  "fst (SleepMem e chip s) =
     (if \<not> bit (RContPort e (pin_reads s)) (unat (GetCS chip)) \<and>
         SPI_Write_Byte e (spi_writes s) = 0 \<and>
         bit (RContPort e (pin_reads s + 2)) (unat (GetCS chip))
      then MEMSUCC else MEMFAIL)"
  by (simp add: SleepMem_def WP_USED_def MEMFALSE_def ClearCS_eq SendCommand_eq SetCS_eq)

lemma SleepMem_ContPort:
  "ContPort (snd (SleepMem e chip s)) =
     (if \<not> bit (RContPort e (pin_reads s)) (unat (GetCS chip)) \<and>
         SPI_Write_Byte e (spi_writes s) = 0
      then ContPort s AND NOT (pin_mask (GetCS chip)) OR pin_mask (GetCS chip)
      else ContPort s AND NOT (pin_mask (GetCS chip)))"
  by (simp add: SleepMem_def WP_USED_def MEMFALSE_def ClearCS_eq SendCommand_eq SetCS_eq)

lemma WriteMemStatus_status:
  "fst (WriteMemStatus e chip v s) =
     (if bit (RContPort e (pin_reads s)) (unat (GetWP chip)) \<and>
         SPI_Write_Byte e (spi_writes s) = 0 \<and>
         SPI_Write_Byte e (Suc (spi_writes s)) = 0 \<and>
         \<not> bit (RContPort e (pin_reads s + 2)) (unat (GetWP chip)) \<and>
         SPI_Write_Byte e (spi_writes s + 2) = 0 \<and>
         fst (SPI_Read_Byte e (spi_reads s)) = 0 \<and>
         v AND 0x8C = snd (SPI_Read_Byte e (spi_reads s)) AND 0x8C
      then MEMSUCC else MEMFAIL)"
  by (simp add: WriteMemStatus_def SetWP_eq SendCommand_eq SendByte_eq ClearWP_eq
        ReadMemStatus_def ReadByte_eq)

lemma WriteMemStatus_ok_trace:
  "bit (RContPort e (pin_reads s)) (unat (GetWP chip)) \<Longrightarrow>
   SPI_Write_Byte e (spi_writes s) = 0 \<Longrightarrow>
   SPI_Write_Byte e (Suc (spi_writes s)) = 0 \<Longrightarrow>
   \<not> bit (RContPort e (pin_reads s + 2)) (unat (GetWP chip)) \<Longrightarrow>
   SPI_Write_Byte e (spi_writes s + 2) = 0 \<Longrightarrow>
   fst (SPI_Read_Byte e (spi_reads s)) = 0 \<Longrightarrow>
   trace (snd (WriteMemStatus e chip v s)) = trace s @
     [PortWrite (ContPort s OR pin_mask (GetWP chip)),
      PinRead (RContPort e (pin_reads s)),
      PortWrite ((ContPort s OR pin_mask (GetWP chip)) AND NOT (pin_mask (GetCS chip))),
      PinRead (RContPort e (pin_reads s + 1)),
      SpiWrite 0x01 0,
      SpiWrite v 0,
      PortWrite (((ContPort s OR pin_mask (GetWP chip)) AND NOT (pin_mask (GetCS chip)))
                 AND NOT (pin_mask (GetWP chip))),
      PinRead (RContPort e (pin_reads s + 2)),
      PortWrite ((((ContPort s OR pin_mask (GetWP chip)) AND NOT (pin_mask (GetCS chip)))
                 AND NOT (pin_mask (GetWP chip))) AND NOT (pin_mask (GetCS chip))),
      PinRead (RContPort e (pin_reads s + 3)),
      SpiWrite 0x05 0,
      SpiRead 0 (snd (SPI_Read_Byte e (spi_reads s)))]"
  by (simp add: WriteMemStatus_def SetWP_eq SendCommand_eq SendByte_eq ClearWP_eq
        ReadMemStatus_def ReadByte_eq MWRSR_def MRDSR_def numeral_3_eq_3)

lemma driven_cleared:
  "ContPort s' = x AND NOT (pin_mask (GetCS chip)) \<Longrightarrow> \<not> driven_high s' (GetCS chip)"
  by (simp add: driven_high_def bit_clear_pin unat_GetCS_less)

lemma driven_raised:
  "ContPort s' = x OR pin_mask (GetCS chip) \<Longrightarrow> driven_high s' (GetCS chip)"
  by (simp add: driven_high_def bit_set_pin unat_GetCS_less)

lemma ReadMemStatus_ContPort:
  "ContPort (snd (snd (ReadMemStatus e chip st s))) = ContPort s AND NOT (pin_mask (GetCS chip))"
  by (simp add: ReadMemStatus_eq SendCommand_eq ReadByte_eq)

lemma ReadMemStatus_port_writes:
  "port_writes (trace (snd (snd (ReadMemStatus e chip st s)))) =
     port_writes (trace s) @ [ContPort s AND NOT (pin_mask (GetCS chip))]"
  by (simp add: ReadMemStatus_eq SendCommand_eq ReadByte_eq)

lemma ReadMemStatus_ok_trace:
  "fst (ReadMemStatus e chip st s) = MEMSUCC \<Longrightarrow>
   trace (snd (snd (ReadMemStatus e chip st s))) = trace s @
     [PortWrite (ContPort s AND NOT (pin_mask (GetCS chip))),
      PinRead (RContPort e (pin_reads s)),
      SpiWrite 0x05 0,
      SpiRead 0 (snd (SPI_Read_Byte e (spi_reads s)))]"
  by (simp add: ReadMemStatus_eq SendCommand_eq ReadByte_eq MRDSR_def split: if_splits)

lemma ReadData_ok_ContPort:
  "fst (ReadData e chip A N d s) = MEMSUCC \<Longrightarrow>
   ContPort (snd (snd (ReadData e chip A N d s))) =
     ContPort s AND NOT (pin_mask (GetCS chip)) OR pin_mask (GetCS chip)"
  by (simp add: ReadData_status ReadData_ok split: if_splits)

lemma WakeMem_ok_ContPort:
  "fst (WakeMem e chip s) = MEMSUCC \<Longrightarrow>
   ContPort (snd (WakeMem e chip s)) =
     ContPort s AND NOT (pin_mask (GetCS chip)) OR pin_mask (GetCS chip)"
  by (simp add: WakeMem_status WakeMem_ok_state split: if_splits)

subsection \<open>Evaluating the examples\<close>

lemma reads_ok_numeral:
  "reads_ok e k (numeral n) =
     (fst (SPI_Read_Byte e k) = 0 \<and> reads_ok e (Suc k) (pred_numeral n))"
  by (simp add: numeral_eq_Suc)

lemma read_values_numeral:
  "read_values e k (numeral n) =
     snd (SPI_Read_Byte e k) # read_values e (Suc k) (pred_numeral n)"
  by (simp add: numeral_eq_Suc)

lemmas ev = reads_ok_numeral read_values_numeral read_events_def bus_def hw_idle_def
  writes_ok_4 GetCS_def GetWP_def CS0_def WP0_def pin_mask_def driven_high_def MDEVICE_def

subsection \<open>The chip-select line after each operation\<close>

lemma length_read_events: "length (read_events e k n) = n"
  unfolding read_events_def by (induction n arbitrary: k) simp_all

lemma bit_pin_mask: "unat pin < 8 \<Longrightarrow> bit (pin_mask pin) n \<longleftrightarrow> n = unat pin"
  by (auto simp: pin_mask_def bit_exp_iff)

lemma unat_GetCS_neq_GetWP: "unat (GetCS chip) \<noteq> unat (GetWP chip')"
  using GetCS_range [of chip] GetWP_range [of chip'] by auto

lemma WriteMemStatus_ContPort:
  "ContPort (snd (WriteMemStatus e chip v s)) =
     (if \<not> bit (RContPort e (pin_reads s)) (unat (GetWP chip))
      then ContPort s OR pin_mask (GetWP chip)
      else if SPI_Write_Byte e (spi_writes s) \<noteq> 0 \<or> SPI_Write_Byte e (Suc (spi_writes s)) \<noteq> 0
      then (ContPort s OR pin_mask (GetWP chip)) AND NOT (pin_mask (GetCS chip))
      else if bit (RContPort e (pin_reads s + 2)) (unat (GetWP chip))
      then ((ContPort s OR pin_mask (GetWP chip)) AND NOT (pin_mask (GetCS chip)))
             AND NOT (pin_mask (GetWP chip))
      else (((ContPort s OR pin_mask (GetWP chip)) AND NOT (pin_mask (GetCS chip)))
             AND NOT (pin_mask (GetWP chip))) AND NOT (pin_mask (GetCS chip)))"
  by (simp add: WriteMemStatus_def SetWP_eq SendCommand_eq SendByte_eq ClearWP_eq
        ReadMemStatus_def ReadByte_eq)

lemma WriteMemStatus_line:
  "(bit (RContPort e (pin_reads s)) (unat (GetWP chip)) \<longrightarrow>
      \<not> driven_high (snd (WriteMemStatus e chip v s)) (GetCS chip)) \<and>
   (\<not> bit (RContPort e (pin_reads s)) (unat (GetWP chip)) \<longrightarrow>
      fst (WriteMemStatus e chip v s) = MEMFAIL \<and>
      driven_high (snd (WriteMemStatus e chip v s)) (GetCS chip) = driven_high s (GetCS chip))"
  using unat_GetCS_neq_GetWP [of chip chip]
  by (simp add: WriteMemStatus_ContPort WriteMemStatus_status driven_high_def bit_and_iff
        bit_or_iff bit_not_iff bit_pin_mask unat_GetCS_less unat_GetWP_less)

text \<open>
  \<^verbatim>\<open>WriteMemStatus\<close> ends in \<^verbatim>\<open>ReadMemStatus\<close>, so it too returns success with the
  chip selected.
\<close>

lemma WriteMemStatus_success_selected:
  "fst (WriteMemStatus e chip v s) = MEMSUCC \<Longrightarrow>
   \<not> driven_high (snd (WriteMemStatus e chip v s)) (GetCS chip)"
  using WriteMemStatus_line [of e s chip v]
  by (auto simp: WriteMemStatus_status split: if_splits)

subsection \<open>The chip index reaches the hardware only through the line lookup\<close>

lemma lines_of_chip:
  assumes "GetCS chip = GetCS chip'" "GetWP chip = GetWP chip'"
  shows "ReadData e chip = ReadData e chip' \<and>
   WakeMem e chip = WakeMem e chip' \<and>
   SleepMem e chip = SleepMem e chip' \<and>
   ReadMemStatus e chip = ReadMemStatus e chip' \<and>
   WriteMemStatus e chip = WriteMemStatus e chip' \<and>
   CheckWIP e chip = CheckWIP e chip'"
proof -
  have pins: "SetCS e chip = SetCS e chip'" "ClearCS e chip = ClearCS e chip'"
    "SetWP e chip = SetWP e chip'" "ClearWP e chip = ClearWP e chip'"
    using assms by (simp_all add: fun_eq_iff SetCS_def ClearCS_def SetWP_def ClearWP_def)
  have addr: "SendAddress e chip = SendAddress e chip'"
    by (simp add: fun_eq_iff SendAddress_def)
  have cmd: "SendCommand e chip = SendCommand e chip'"
    by (simp add: fun_eq_iff SendCommand_def pins cong: if_cong)
  have sca: "SendCommandAndAddress e chip = SendCommandAndAddress e chip'"
    by (simp add: fun_eq_iff SendCommandAndAddress_def cmd addr cong: if_cong)
  have rms: "ReadMemStatus e chip = ReadMemStatus e chip'"
    by (simp add: fun_eq_iff ReadMemStatus_def cmd cong: if_cong)
  have "ReadData e chip = ReadData e chip'"
    by (simp add: fun_eq_iff ReadData_def sca pins cong: if_cong)
  moreover have "WakeMem e chip = WakeMem e chip'"
    by (simp add: fun_eq_iff WakeMem_def sca pins cong: if_cong)
  moreover have "SleepMem e chip = SleepMem e chip'"
    by (simp add: fun_eq_iff SleepMem_def cmd pins cong: if_cong)
  moreover have "WriteMemStatus e chip = WriteMemStatus e chip'"
    by (simp add: fun_eq_iff WriteMemStatus_def cmd pins rms cong: if_cong)
  moreover have "CheckWIP e chip = CheckWIP e chip'"
    by (simp add: fun_eq_iff CheckWIP_def rms cong: if_cong)
  ultimately show ?thesis
    using rms by simp
qed

subsection \<open>GetPage\<close>

text \<open>
  What \<^verbatim>\<open>GetPage\<close> returns, for addresses whose page number fits the 16-bit
  \<^verbatim>\<open>int\<close> (addresses below 0x800000): \<^verbatim>\<open>MEMSUCC\<close> inside the array, \<^verbatim>\<open>MEMFAIL\<close>
  beyond it.
\<close>

lemma sint_long_small:
  assumes "uint (A :: long) < 2 ^ 31"
  shows "sint A = uint A"
proof -
  have "- (2 ^ 31) \<le> uint A"
    by (rule order_trans [of _ 0]) simp_all
  with assms have "signed_take_bit 31 (uint A) = uint A"
    by (intro signed_take_bit_int_eq_self)
  then show ?thesis
    by (simp add: sint_uint)
qed

lemma sdiv_nonneg: "0 \<le> (k::int) \<Longrightarrow> k sdiv 256 = k div 256"
  by (cases "k = 0") (simp_all add: signed_divide_int_def)

lemma GetPage_page_number:
  assumes "uint Address < 0x800000"
  shows "sint (scast (long_div Address PAGE_SIZE) :: cint) = uint Address div 256"
proof -
  let ?q = "uint Address div 256"
  have small: "uint Address < 2 ^ 31" using assms by simp
  have "0 \<le> uint Address" by simp
  then have q: "0 \<le> ?q" "?q < 2 ^ 15"
    using assms by (simp_all add: pos_imp_zdiv_nonneg_iff)
  have "long_div Address PAGE_SIZE = word_of_int ?q"
    by (simp add: long_div_def PAGE_SIZE_def sint_long_small [OF small] sdiv_nonneg)
  moreover have "signed_take_bit 31 ?q = ?q"
    using q by (intro signed_take_bit_int_eq_self) simp_all
  moreover have "signed_take_bit 15 ?q = ?q"
    using q by (intro signed_take_bit_int_eq_self) simp_all
  ultimately show ?thesis
    by (simp add: signed_scast_eq sint_sbintrunc')
qed

lemma GetPage_status:
  assumes "uint Address < 0x800000"
  shows "fst (GetPage Address p) = (if uint Address < 0x20000 then MEMSUCC else MEMFAIL)"
proof -
  have "(511 <s (scast (long_div Address PAGE_SIZE) :: cint)) = (511 < uint Address div 256)"
    by (simp add: word_sless_alt GetPage_page_number [OF assms])
  also have "\<dots> = (\<not> uint Address < 0x20000)"
    by auto
  finally show ?thesis
    by (simp add: GetPage_def)
qed

text \<open>
  C1. The claim: for every address in the array \<^verbatim>\<open>GetPage\<close> succeeds and stores
  address / 256 into the caller's \<^verbatim>\<open>page\<close>, and it fails for addresses from 0x20000 on.
  At address 0x100, with the caller's \<^verbatim>\<open>page\<close> holding 0, the function returns
  \<^verbatim>\<open>MEMSUCC\<close> and the caller's \<^verbatim>\<open>page\<close> still holds 0, not the page number 1.
\<close>

theorem GetPage_does_not_store_page: "GetPage 0x100 0 = (MEMSUCC, 0)"
  by (simp add: GetPage_def long_div_def PAGE_SIZE_def signed_divide_int_def word_sless_alt)

text \<open>The caller's \<^verbatim>\<open>page\<close> is never written, whatever the address.\<close>

lemma GetPage_caller_page: "snd (GetPage Address p) = p"
  by (simp add: GetPage_def Let_def)

text \<open>
  The page number is cut to 16 bits before it is compared with 511, so an address whose
  page number is a multiple of 65536 passes the range check.
\<close>

lemma GetPage_wraps: "fst (GetPage 0x1000000 p) = MEMSUCC"
  by (simp add: GetPage_def long_div_def PAGE_SIZE_def signed_divide_int_def word_sless_alt)

subsection \<open>ReadMemStatus\<close>

text \<open>
  C6. \<^verbatim>\<open>ReadMemStatus\<close> drives the chip-select line low once and never high: on every
  path the one value it writes to the port has the chip's select bit cleared, and it
  returns with the line driven low. When it succeeds it has sent the opcode 0x05 and read
  exactly one byte. \<^verbatim>\<open>ReadData\<close>, \<^verbatim>\<open>WakeMem\<close> and \<^verbatim>\<open>SleepMem\<close>, in contrast,
  return success with the line driven high.
\<close>

theorem ReadMemStatus_leaves_chip_selected:
  "ContPort (snd (snd (ReadMemStatus e chip st s))) =
     ContPort s AND NOT (pin_mask (GetCS chip)) \<and>
   port_writes (trace (snd (snd (ReadMemStatus e chip st s)))) =
     port_writes (trace s) @ [ContPort s AND NOT (pin_mask (GetCS chip))] \<and>
   \<not> driven_high (snd (snd (ReadMemStatus e chip st s))) (GetCS chip) \<and>
   (fst (ReadMemStatus e chip st s) = MEMSUCC \<longrightarrow>
      trace (snd (snd (ReadMemStatus e chip st s))) = trace s @
        [PortWrite (ContPort s AND NOT (pin_mask (GetCS chip))),
         PinRead (RContPort e (pin_reads s)),
         SpiWrite 0x05 0,
         SpiRead 0 (snd (SPI_Read_Byte e (spi_reads s)))]) \<and>
   (fst (ReadData e chip A N d s) = MEMSUCC \<longrightarrow>
      driven_high (snd (snd (ReadData e chip A N d s))) (GetCS chip)) \<and>
   (fst (WakeMem e chip s) = MEMSUCC \<longrightarrow> driven_high (snd (WakeMem e chip s)) (GetCS chip)) \<and>
   (fst (SleepMem e chip s) = MEMSUCC \<longrightarrow> driven_high (snd (SleepMem e chip s)) (GetCS chip))"
proof -
  have "\<not> driven_high (snd (snd (ReadMemStatus e chip st s))) (GetCS chip)"
    by (rule driven_cleared) (rule ReadMemStatus_ContPort)
  moreover have "fst (ReadData e chip A N d s) = MEMSUCC \<longrightarrow>
      driven_high (snd (snd (ReadData e chip A N d s))) (GetCS chip)"
    by (simp add: driven_high_def ReadData_ok_ContPort bit_set_pin unat_GetCS_less)
  moreover have "fst (WakeMem e chip s) = MEMSUCC \<longrightarrow>
      driven_high (snd (WakeMem e chip s)) (GetCS chip)"
    by (simp add: driven_high_def WakeMem_ok_ContPort bit_set_pin unat_GetCS_less)
  moreover have "fst (SleepMem e chip s) = MEMSUCC \<longrightarrow>
      driven_high (snd (SleepMem e chip s)) (GetCS chip)"
    by (simp add: driven_high_def SleepMem_status SleepMem_ContPort bit_set_pin unat_GetCS_less)
  ultimately show ?thesis
    by (simp add: ReadMemStatus_ContPort ReadMemStatus_port_writes ReadMemStatus_ok_trace)
qed

theorem ReadMemStatus_leaves_chip_selected_witness:
  "fst (ReadMemStatus (bus [0xFE] 0 (0, 0x02)) 0 0 hw_idle) = MEMSUCC \<and>
   trace (snd (snd (ReadMemStatus (bus [0xFE] 0 (0, 0x02)) 0 0 hw_idle))) =
     [PortWrite 0xFE, PinRead 0xFE, SpiWrite 0x05 0, SpiRead 0 0x02] \<and>
   ContPort (snd (snd (ReadMemStatus (bus [0xFE] 0 (0, 0x02)) 0 0 hw_idle))) = 0xFE \<and>
   \<not> driven_high (snd (snd (ReadMemStatus (bus [0xFE] 0 (0, 0x02)) 0 0 hw_idle))) (GetCS 0) \<and>
   fst (ReadData (bus [0xFE] 0 (0, 0x02)) 0 0x012345 2 (\<lambda>i. 0) hw_idle) = MEMSUCC \<and>
   driven_high (snd (snd (ReadData (bus [0xFE] 0 (0, 0x02)) 0 0x012345 2 (\<lambda>i. 0) hw_idle)))
     (GetCS 0) \<and>
   fst (WakeMem (bus [0xFE] 0 (0, 0x29)) 0 hw_idle) = MEMSUCC \<and>
   driven_high (snd (WakeMem (bus [0xFE] 0 (0, 0x29)) 0 hw_idle)) (GetCS 0) \<and>
   fst (SleepMem (bus [0xFE] 0 (0, 0x02)) 0 hw_idle) = MEMSUCC \<and>
   driven_high (snd (SleepMem (bus [0xFE] 0 (0, 0x02)) 0 hw_idle)) (GetCS 0)"
  using ReadMemStatus_leaves_chip_selected [of "bus [0xFE] 0 (0, 0x02)" 0 0 hw_idle
      "0x012345" 2 "\<lambda>i. 0"]
    ReadMemStatus_leaves_chip_selected [of "bus [0xFE] 0 (0, 0x29)" 0 0 hw_idle
      "0x012345" 2 "\<lambda>i. 0"]
  by (simp add: ev ReadMemStatus_eq SendCommand_eq ReadByte_eq ReadData_status WakeMem_status
        SleepMem_status)


text \<open>
  C10. When \<^verbatim>\<open>ReadMemStatus\<close> does not succeed (the SPI write of the opcode or the SPI
  read failed) it returns \<^verbatim>\<open>MEMFAIL\<close> and the caller's \<^verbatim>\<open>status\<close> holds what it held
  before; when it succeeds, \<^verbatim>\<open>status\<close> holds the byte read.
\<close>

theorem ReadMemStatus_status_only_on_success:
  "(fst (ReadMemStatus e chip st s) = MEMSUCC \<longleftrightarrow>
      SPI_Write_Byte e (spi_writes s) = 0 \<and> fst (SPI_Read_Byte e (spi_reads s)) = 0) \<and>
   (fst (ReadMemStatus e chip st s) \<noteq> MEMSUCC \<longrightarrow>
      fst (ReadMemStatus e chip st s) = MEMFAIL \<and> fst (snd (ReadMemStatus e chip st s)) = st) \<and>
   (fst (ReadMemStatus e chip st s) = MEMSUCC \<longrightarrow>
      fst (snd (ReadMemStatus e chip st s)) = snd (SPI_Read_Byte e (spi_reads s)))"
  by (simp add: ReadMemStatus_eq)

theorem ReadMemStatus_status_only_on_success_witness:
  "fst (ReadMemStatus (bus [0xFE] 2 (0, 0x29)) 0 0x55 hw_idle) = MEMFAIL \<and>
   fst (snd (ReadMemStatus (bus [0xFE] 2 (0, 0x29)) 0 0x55 hw_idle)) = 0x55 \<and>
   fst (ReadMemStatus (bus [0xFE] 0 (0, 0x29)) 0 0x55 hw_idle) = MEMSUCC \<and>
   fst (snd (ReadMemStatus (bus [0xFE] 0 (0, 0x29)) 0 0x55 hw_idle)) = 0x29"
  using ReadMemStatus_status_only_on_success [of "bus [0xFE] 2 (0, 0x29)" 0 "0x55" hw_idle]
    ReadMemStatus_status_only_on_success [of "bus [0xFE] 0 (0, 0x29)" 0 "0x55" hw_idle]
  by (simp add: ev)


subsection \<open>WakeMem\<close>

text \<open>
  C7. \<^verbatim>\<open>WakeMem\<close> succeeds exactly when its four SPI writes and its SPI read succeed,
  the read-back after raising chip-select shows the line high, and the byte read is 0x29;
  otherwise it returns \<^verbatim>\<open>MEMFAIL\<close>. Whenever the SPI transfers succeed it has sent the
  opcode 0xAB and the three bytes 0xA5 of the dummy address, read one byte and raised
  chip-select, whatever the byte was.
\<close>

theorem WakeMem_checks_signature:
  "(fst (WakeMem e chip s) = MEMSUCC \<longleftrightarrow>
      writes_ok e (spi_writes s) 4 \<and> fst (SPI_Read_Byte e (spi_reads s)) = 0 \<and>
      bit (RContPort e (Suc (pin_reads s))) (unat (GetCS chip)) \<and>
      snd (SPI_Read_Byte e (spi_reads s)) = 0x29) \<and>
   (fst (WakeMem e chip s) \<noteq> MEMSUCC \<longrightarrow> fst (WakeMem e chip s) = MEMFAIL) \<and>
   (writes_ok e (spi_writes s) 4 \<and> fst (SPI_Read_Byte e (spi_reads s)) = 0 \<longrightarrow>
      trace (snd (WakeMem e chip s)) = trace s @
        [PortWrite (ContPort s AND NOT (pin_mask (GetCS chip))),
         PinRead (RContPort e (pin_reads s)),
         SpiWrite 0xAB 0, SpiWrite 0xA5 0, SpiWrite 0xA5 0, SpiWrite 0xA5 0,
         SpiRead 0 (snd (SPI_Read_Byte e (spi_reads s))),
         PortWrite (ContPort s AND NOT (pin_mask (GetCS chip)) OR pin_mask (GetCS chip)),
         PinRead (RContPort e (Suc (pin_reads s)))])"
  by (simp add: WakeMem_status WakeMem_ok_state MDEVICE_def)

theorem WakeMem_checks_signature_witness:
  "fst (WakeMem (bus [0xFE] 0 (0, 0x29)) 0 hw_idle) = MEMSUCC \<and>
   fst (WakeMem (bus [0xFE] 0 (0, 0x28)) 0 hw_idle) = MEMFAIL \<and>
   trace (snd (WakeMem (bus [0xFE] 0 (0, 0x28)) 0 hw_idle)) =
     [PortWrite 0xFE, PinRead 0xFE, SpiWrite 0xAB 0, SpiWrite 0xA5 0, SpiWrite 0xA5 0,
      SpiWrite 0xA5 0, SpiRead 0 0x28, PortWrite 0xFF, PinRead 0xFF]"
  using WakeMem_checks_signature [of "bus [0xFE] 0 (0, 0x29)" 0 hw_idle]
    WakeMem_checks_signature [of "bus [0xFE] 0 (0, 0x28)" 0 hw_idle]
  by (simp add: ev)

subsection \<open>ReadData\<close>

text \<open>
  C8. \<^verbatim>\<open>ReadData\<close> succeeds exactly when its four SPI writes, its \<open>unat NumBytes\<close>
  SPI reads and the read-back of the final deselect succeed, and returns \<^verbatim>\<open>MEMFAIL\<close>
  otherwise. When the transfers succeed it has selected the chip, sent the opcode 0x03 and
  the address as three bytes, bits 23-16 first, then 15-8, then 7-0, once; then read
  \<open>unat NumBytes\<close> bytes one by one into \<^verbatim>\<open>data[0]\<close>, \<^verbatim>\<open>data[1]\<close>, ... with nothing
  sent in between; then raised chip-select. On every path the bytes it hands to the SPI
  write primitive are a prefix of these four: no write-enable opcode and no status read
  for a protection check is sent. The count is read as unsigned, as the loop's comparison
  with its \<^verbatim>\<open>unsigned long\<close> counter does; for a count that is not negative this is the
  count itself.
\<close>

theorem ReadData_frames_once:
  "(fst (ReadData e chip A N d s) = MEMSUCC \<longleftrightarrow>
      writes_ok e (spi_writes s) 4 \<and> reads_ok e (spi_reads s) (unat N) \<and>
      bit (RContPort e (Suc (pin_reads s))) (unat (GetCS chip))) \<and>
   (fst (ReadData e chip A N d s) \<noteq> MEMSUCC \<longrightarrow> fst (ReadData e chip A N d s) = MEMFAIL) \<and>
   (writes_ok e (spi_writes s) 4 \<and> reads_ok e (spi_reads s) (unat N) \<longrightarrow>
      snd (ReadData e chip A N d s) =
        ((\<lambda>i. if i < unat N then snd (SPI_Read_Byte e (spi_reads s + i)) else d i),
         s\<lparr>ContPort := ContPort s AND NOT (pin_mask (GetCS chip)) OR pin_mask (GetCS chip),
           pin_reads := pin_reads s + 2,
           spi_writes := spi_writes s + 4,
           spi_reads := spi_reads s + unat N,
           trace := trace s @
             [PortWrite (ContPort s AND NOT (pin_mask (GetCS chip))),
              PinRead (RContPort e (pin_reads s)),
              SpiWrite 0x03 0, SpiWrite (addr_byte A 2) 0,
              SpiWrite (addr_byte A 1) 0, SpiWrite (addr_byte A 0) 0] @
             read_events e (spi_reads s) (unat N) @
             [PortWrite (ContPort s AND NOT (pin_mask (GetCS chip)) OR pin_mask (GetCS chip)),
              PinRead (RContPort e (Suc (pin_reads s)))]\<rparr>)) \<and>
   length (read_events e (spi_reads s) (unat N)) = unat N \<and>
   (\<exists>k. spi_sent (trace (snd (snd (ReadData e chip A N d s)))) =
      spi_sent (trace s) @ take k [0x03, addr_byte A 2, addr_byte A 1, addr_byte A 0])"
  using ReadData_sent [of e chip A N d s]
  by (simp add: ReadData_status ReadData_ok length_read_events)

theorem ReadData_frames_once_witness:
  "fst (ReadData (bus [0xFE] 0 (0, 0x5A)) 0 0x012345 2 (\<lambda>i. 0) hw_idle) = MEMSUCC \<and>
   trace (snd (snd (ReadData (bus [0xFE] 0 (0, 0x5A)) 0 0x012345 2 (\<lambda>i. 0) hw_idle))) =
     [PortWrite 0xFE, PinRead 0xFE, SpiWrite 0x03 0, SpiWrite 0x01 0, SpiWrite 0x23 0,
      SpiWrite 0x45 0, SpiRead 0 0x5A, SpiRead 0 0x5A, PortWrite 0xFF, PinRead 0xFF] \<and>
   fst (snd (ReadData (bus [0xFE] 0 (0, 0x5A)) 0 0x012345 2 (\<lambda>i. 0) hw_idle)) 1 = 0x5A \<and>
   fst (snd (ReadData (bus [0xFE] 0 (0, 0x5A)) 0 0x012345 2 (\<lambda>i. 0) hw_idle)) 2 = 0 \<and>
   fst (ReadData (bus [0xFE] 0 (2, 0x5A)) 0 0x012345 2 (\<lambda>i. 0) hw_idle) = MEMFAIL"
  using ReadData_frames_once [of "bus [0xFE] 0 (0, 0x5A)" 0 "0x012345" 2 "\<lambda>i. 0" hw_idle]
    ReadData_frames_once [of "bus [0xFE] 0 (2, 0x5A)" 0 "0x012345" 2 "\<lambda>i. 0" hw_idle]
  by (simp add: ev addr_byte_def)


subsection \<open>WriteMemStatus\<close>

text \<open>
  C5. \<^verbatim>\<open>WriteMemStatus\<close> succeeds exactly when the read-back of raising the
  write-protect pin shows it high, the SPI writes of the opcode and of the payload succeed,
  the read-back of lowering the write-protect pin shows it low, the SPI write of the
  read-status opcode and the SPI read succeed, and the byte read equals the payload on the
  bits of the mask 0x8C; otherwise it returns \<^verbatim>\<open>MEMFAIL\<close>. So when every step succeeds
  it fails exactly when the masked bits differ. With the steps succeeding the log is:
  write-protect pin raised, chip selected, 0x01 sent, the payload sent, write-protect pin
  lowered, chip selected again, 0x05 sent, one byte read.
\<close>

theorem WriteMemStatus_verifies_protection_bits:
  "(fst (WriteMemStatus e chip v s) = MEMSUCC \<longleftrightarrow>
      bit (RContPort e (pin_reads s)) (unat (GetWP chip)) \<and>
      SPI_Write_Byte e (spi_writes s) = 0 \<and>
      SPI_Write_Byte e (Suc (spi_writes s)) = 0 \<and>
      \<not> bit (RContPort e (pin_reads s + 2)) (unat (GetWP chip)) \<and>
      SPI_Write_Byte e (spi_writes s + 2) = 0 \<and>
      fst (SPI_Read_Byte e (spi_reads s)) = 0 \<and>
      v AND 0x8C = snd (SPI_Read_Byte e (spi_reads s)) AND 0x8C) \<and>
   (fst (WriteMemStatus e chip v s) \<noteq> MEMSUCC \<longrightarrow> fst (WriteMemStatus e chip v s) = MEMFAIL) \<and>
   (bit (RContPort e (pin_reads s)) (unat (GetWP chip)) \<and>
    SPI_Write_Byte e (spi_writes s) = 0 \<and>
    SPI_Write_Byte e (Suc (spi_writes s)) = 0 \<and>
    \<not> bit (RContPort e (pin_reads s + 2)) (unat (GetWP chip)) \<and>
    SPI_Write_Byte e (spi_writes s + 2) = 0 \<and>
    fst (SPI_Read_Byte e (spi_reads s)) = 0 \<longrightarrow>
      trace (snd (WriteMemStatus e chip v s)) = trace s @
        [PortWrite (ContPort s OR pin_mask (GetWP chip)),
         PinRead (RContPort e (pin_reads s)),
         PortWrite ((ContPort s OR pin_mask (GetWP chip)) AND NOT (pin_mask (GetCS chip))),
         PinRead (RContPort e (pin_reads s + 1)),
         SpiWrite 0x01 0,
         SpiWrite v 0,
         PortWrite (((ContPort s OR pin_mask (GetWP chip)) AND NOT (pin_mask (GetCS chip)))
                    AND NOT (pin_mask (GetWP chip))),
         PinRead (RContPort e (pin_reads s + 2)),
         PortWrite ((((ContPort s OR pin_mask (GetWP chip)) AND NOT (pin_mask (GetCS chip)))
                    AND NOT (pin_mask (GetWP chip))) AND NOT (pin_mask (GetCS chip))),
         PinRead (RContPort e (pin_reads s + 3)),
         SpiWrite 0x05 0,
         SpiRead 0 (snd (SPI_Read_Byte e (spi_reads s)))])"
  using WriteMemStatus_ok_trace [of e s chip v]
  by (simp add: WriteMemStatus_status)

theorem WriteMemStatus_verifies_protection_bits_witness:
  "fst (WriteMemStatus (bus [0xFF, 0xFE, 0xEE, 0xEE] 0 (0, 0x8E)) 0 0x8C hw_idle) = MEMSUCC \<and>
   fst (WriteMemStatus (bus [0xFF, 0xFE, 0xEE, 0xEE] 0 (0, 0x8E)) 0 0x0C hw_idle) = MEMFAIL \<and>
   trace (snd (WriteMemStatus (bus [0xFF, 0xFE, 0xEE, 0xEE] 0 (0, 0x8E)) 0 0x0C hw_idle)) =
     [PortWrite 0xFF, PinRead 0xFF, PortWrite 0xFE, PinRead 0xFE, SpiWrite 0x01 0,
      SpiWrite 0x0C 0, PortWrite 0xEE, PinRead 0xEE, PortWrite 0xEE, PinRead 0xEE,
      SpiWrite 0x05 0, SpiRead 0 0x8E]"
  using WriteMemStatus_verifies_protection_bits [of "bus [0xFF, 0xFE, 0xEE, 0xEE] 0 (0, 0x8E)" 0 "0x8C" hw_idle]
    WriteMemStatus_verifies_protection_bits [of "bus [0xFF, 0xFE, 0xEE, 0xEE] 0 (0, 0x8E)" 0 "0x0C" hw_idle]
  by (simp add: ev)


subsection \<open>Verification of the lines\<close>

text \<open>
  C4. The claim: a read-back mismatch after driving a chip-select or write-protect line
  makes the enclosing operation fail; an operation that selects a chip fails when the line
  cannot be confirmed low. On a port whose pins always read high \<^verbatim>\<open>ClearCS\<close> does return
  \<^verbatim>\<open>MEMFAIL\<close>, but \<^verbatim>\<open>SendCommand\<close> drops that result: \<^verbatim>\<open>SendCommand\<close>,
  \<^verbatim>\<open>ReadMemStatus\<close> and \<^verbatim>\<open>ReadData\<close> return \<^verbatim>\<open>MEMSUCC\<close>. \<^verbatim>\<open>SleepMem\<close>, which
  tests the result of its own \<^verbatim>\<open>ClearCS\<close>, fails on the same port.
\<close>

theorem SendCommand_drops_ClearCS_result:
  "fst (ClearCS (bus [] 0 (0, 0)) 0 hw_idle) = MEMFAIL \<and>
   fst (SendCommand (bus [] 0 (0, 0)) 0 MRDSR hw_idle) = MEMSUCC \<and>
   fst (ReadMemStatus (bus [] 0 (0, 0)) 0 0 hw_idle) = MEMSUCC \<and>
   fst (ReadData (bus [] 0 (0, 0)) 0 0 1 (\<lambda>i. 0) hw_idle) = MEMSUCC \<and>
   fst (SleepMem (bus [] 0 (0, 0)) 0 hw_idle) = MEMFAIL"
  by (simp add: ev ClearCS_eq SendCommand_eq ReadMemStatus_eq ReadData_status SleepMem_status)


text \<open>
  The part of C4 that holds: each of the four line functions writes the level, reads the
  port back and fails on a mismatch (\<open>SetCS_eq\<close>, \<open>ClearCS_eq\<close>, \<open>SetWP_eq\<close>,
  \<open>ClearWP_eq\<close>), and \<^verbatim>\<open>SendCommand\<close> succeeds whenever its SPI write does.
\<close>

lemma SendCommand_status:
  "fst (SendCommand e chip Command s) =
     (if SPI_Write_Byte e (spi_writes s) = 0 then MEMSUCC else MEMFAIL)"
  by (simp add: SendCommand_eq)

subsection \<open>Failure paths\<close>

text \<open>
  C3, as amended. No operation raises chip-select because it failed; each returns at the
  first failing step. After a failed SPI transfer in \<^verbatim>\<open>ReadData\<close>, \<^verbatim>\<open>WakeMem\<close>,
  \<^verbatim>\<open>SleepMem\<close>, \<^verbatim>\<open>ReadMemStatus\<close> or \<^verbatim>\<open>WriteMemStatus\<close>, and after a failed select
  read-back in \<^verbatim>\<open>SleepMem\<close>, the line is still driven low: the chip stays selected.
  \<^verbatim>\<open>WriteMemStatus\<close> failing at its first step, the write-protect read-back, leaves
  the line as it found it. The line is driven high at a failure return only where the
  failure comes after the operation's own deselect: the read-back of that deselect in
  \<^verbatim>\<open>ReadData\<close>, \<^verbatim>\<open>WakeMem\<close> and \<^verbatim>\<open>SleepMem\<close>, and the signature check of
  \<^verbatim>\<open>WakeMem\<close>.
\<close>

theorem failure_returns_at_once:
  "(\<not> (writes_ok e (spi_writes s) 4 \<and> reads_ok e (spi_reads s) (unat N)) \<longrightarrow>
      fst (ReadData e chip A N d s) = MEMFAIL \<and>
      \<not> driven_high (snd (snd (ReadData e chip A N d s))) (GetCS chip)) \<and>
   (writes_ok e (spi_writes s) 4 \<and> reads_ok e (spi_reads s) (unat N) \<longrightarrow>
      driven_high (snd (snd (ReadData e chip A N d s))) (GetCS chip)) \<and>
   (\<not> (writes_ok e (spi_writes s) 4 \<and> fst (SPI_Read_Byte e (spi_reads s)) = 0) \<longrightarrow>
      fst (WakeMem e chip s) = MEMFAIL \<and>
      \<not> driven_high (snd (WakeMem e chip s)) (GetCS chip)) \<and>
   (writes_ok e (spi_writes s) 4 \<and> fst (SPI_Read_Byte e (spi_reads s)) = 0 \<longrightarrow>
      driven_high (snd (WakeMem e chip s)) (GetCS chip)) \<and>
   (\<not> (\<not> bit (RContPort e (pin_reads s)) (unat (GetCS chip)) \<and>
        SPI_Write_Byte e (spi_writes s) = 0) \<longrightarrow>
      fst (SleepMem e chip s) = MEMFAIL \<and>
      \<not> driven_high (snd (SleepMem e chip s)) (GetCS chip)) \<and>
   (\<not> bit (RContPort e (pin_reads s)) (unat (GetCS chip)) \<and>
    SPI_Write_Byte e (spi_writes s) = 0 \<longrightarrow>
      driven_high (snd (SleepMem e chip s)) (GetCS chip)) \<and>
   \<not> driven_high (snd (snd (ReadMemStatus e chip st s))) (GetCS chip) \<and>
   (bit (RContPort e (pin_reads s)) (unat (GetWP chip)) \<longrightarrow>
      \<not> driven_high (snd (WriteMemStatus e chip v s)) (GetCS chip)) \<and>
   (\<not> bit (RContPort e (pin_reads s)) (unat (GetWP chip)) \<longrightarrow>
      fst (WriteMemStatus e chip v s) = MEMFAIL \<and>
      driven_high (snd (WriteMemStatus e chip v s)) (GetCS chip) = driven_high s (GetCS chip))"
proof -
  have rd: "\<not> (writes_ok e (spi_writes s) 4 \<and> reads_ok e (spi_reads s) (unat N)) \<longrightarrow>
      fst (ReadData e chip A N d s) = MEMFAIL \<and>
      \<not> driven_high (snd (snd (ReadData e chip A N d s))) (GetCS chip)"
    using ReadData_fail_ContPort [of e s N chip A d]
    by (auto simp: ReadData_status dest: driven_cleared)
  have rd': "writes_ok e (spi_writes s) 4 \<and> reads_ok e (spi_reads s) (unat N) \<longrightarrow>
      driven_high (snd (snd (ReadData e chip A N d s))) (GetCS chip)"
    by (simp add: ReadData_ok driven_high_def bit_set_pin unat_GetCS_less)
  have wk: "\<not> (writes_ok e (spi_writes s) 4 \<and> fst (SPI_Read_Byte e (spi_reads s)) = 0) \<longrightarrow>
      fst (WakeMem e chip s) = MEMFAIL \<and>
      \<not> driven_high (snd (WakeMem e chip s)) (GetCS chip)"
    using WakeMem_fail_state [of e s chip]
    by (auto simp: WakeMem_status dest: driven_cleared)
  have wk': "writes_ok e (spi_writes s) 4 \<and> fst (SPI_Read_Byte e (spi_reads s)) = 0 \<longrightarrow>
      driven_high (snd (WakeMem e chip s)) (GetCS chip)"
    by (simp add: WakeMem_ok_state driven_high_def bit_set_pin unat_GetCS_less)
  have sl: "\<not> (\<not> bit (RContPort e (pin_reads s)) (unat (GetCS chip)) \<and>
        SPI_Write_Byte e (spi_writes s) = 0) \<longrightarrow>
      fst (SleepMem e chip s) = MEMFAIL \<and>
      \<not> driven_high (snd (SleepMem e chip s)) (GetCS chip)"
    by (auto simp: SleepMem_status SleepMem_ContPort driven_high_def bit_clear_pin unat_GetCS_less)
  have sl': "\<not> bit (RContPort e (pin_reads s)) (unat (GetCS chip)) \<and>
      SPI_Write_Byte e (spi_writes s) = 0 \<longrightarrow>
      driven_high (snd (SleepMem e chip s)) (GetCS chip)"
    by (simp add: SleepMem_ContPort driven_high_def bit_set_pin unat_GetCS_less)
  have rs: "\<not> driven_high (snd (snd (ReadMemStatus e chip st s))) (GetCS chip)"
    by (rule driven_cleared) (rule ReadMemStatus_ContPort)
  from rd rd' wk wk' sl sl' rs WriteMemStatus_line [of e s chip v] show ?thesis
    by blast
qed

theorem failure_returns_at_once_witness:
  "fst (ReadData (bus [0xFE] 2 (0, 0)) 0 0 1 (\<lambda>i. 0) hw_idle) = MEMFAIL \<and>
   \<not> driven_high (snd (snd (ReadData (bus [0xFE] 2 (0, 0)) 0 0 1 (\<lambda>i. 0) hw_idle))) (GetCS 0) \<and>
   fst (WakeMem (bus [0xFE] 0 (0, 0x28)) 0 hw_idle) = MEMFAIL \<and>
   driven_high (snd (WakeMem (bus [0xFE] 0 (0, 0x28)) 0 hw_idle)) (GetCS 0) \<and>
   fst (WakeMem (bus [0xFE] 0 (2, 0x29)) 0 hw_idle) = MEMFAIL \<and>
   \<not> driven_high (snd (WakeMem (bus [0xFE] 0 (2, 0x29)) 0 hw_idle)) (GetCS 0) \<and>
   fst (SleepMem (bus [0xFE] 2 (0, 0)) 0 hw_idle) = MEMFAIL \<and>
   \<not> driven_high (snd (SleepMem (bus [0xFE] 2 (0, 0)) 0 hw_idle)) (GetCS 0) \<and>
   fst (WriteMemStatus (bus [0xFF] 2 (0, 0)) 0 0x8C hw_idle) = MEMFAIL \<and>
   \<not> driven_high (snd (WriteMemStatus (bus [0xFF] 2 (0, 0)) 0 0x8C hw_idle)) (GetCS 0) \<and>
   fst (WriteMemStatus (bus [0x00] 0 (0, 0)) 0 0x8C hw_idle) = MEMFAIL \<and>
   driven_high (snd (WriteMemStatus (bus [0x00] 0 (0, 0)) 0 0x8C hw_idle)) (GetCS 0) \<and>
   fst (ReadData (bus [0xFE, 0xFE] 0 (0, 0x28)) 0 0 1 (\<lambda>i. 0) hw_idle) = MEMFAIL \<and>
   driven_high (snd (snd (ReadData (bus [0xFE, 0xFE] 0 (0, 0x28)) 0 0 1 (\<lambda>i. 0) hw_idle)))
     (GetCS 0) \<and>
   fst (SleepMem (bus [0xFE, 0xFE, 0xFE] 0 (0, 0x28)) 0 hw_idle) = MEMFAIL \<and>
   driven_high (snd (SleepMem (bus [0xFE, 0xFE, 0xFE] 0 (0, 0x28)) 0 hw_idle)) (GetCS 0)"
  using failure_returns_at_once [of "bus [0xFE] 2 (0, 0)" hw_idle 1 0 0 "\<lambda>i. 0" 0 "0x8C"]
    failure_returns_at_once [of "bus [0xFE] 0 (0, 0x28)" hw_idle 1 0 0 "\<lambda>i. 0" 0 "0x8C"]
    failure_returns_at_once [of "bus [0xFE] 0 (2, 0x29)" hw_idle 1 0 0 "\<lambda>i. 0" 0 "0x8C"]
    failure_returns_at_once [of "bus [0xFF] 2 (0, 0)" hw_idle 1 0 0 "\<lambda>i. 0" 0 "0x8C"]
    failure_returns_at_once [of "bus [0x00] 0 (0, 0)" hw_idle 1 0 0 "\<lambda>i. 0" 0 "0x8C"]
    failure_returns_at_once [of "bus [0xFE, 0xFE] 0 (0, 0x28)" hw_idle 1 0 0 "\<lambda>i. 0" 0 "0x8C"]
    failure_returns_at_once [of "bus [0xFE, 0xFE, 0xFE] 0 (0, 0x28)" hw_idle 1 0 0 "\<lambda>i. 0" 0 "0x8C"]
  by (simp add: ev ReadData_status WakeMem_status SleepMem_status WriteMemStatus_status)


text \<open>
  C3 as claimed fails: with every SPI write failing, \<^verbatim>\<open>ReadData\<close> returns \<^verbatim>\<open>MEMFAIL\<close>,
  the only value it wrote to the port is the one that selects the chip, and the line is
  left driven low.
\<close>

theorem failure_deselects_counterexample:
  "fst (ReadData (bus [0xFE] 2 (0, 0)) 0 0 1 (\<lambda>i. 0) hw_idle) = MEMFAIL \<and>
   port_writes (trace (snd (snd (ReadData (bus [0xFE] 2 (0, 0)) 0 0 1 (\<lambda>i. 0) hw_idle)))) = [0xFE] \<and>
   \<not> driven_high (snd (snd (ReadData (bus [0xFE] 2 (0, 0)) 0 0 1 (\<lambda>i. 0) hw_idle))) (GetCS 0)"
  using ReadData_fail_ContPort [of "bus [0xFE] 2 (0, 0)" hw_idle 1 0 0 "\<lambda>i. 0"]
  by (simp add: ev ReadData_status ReadData_def SCA_unfold)


subsection \<open>Chip indices outside 0..3\<close>

text \<open>
  C2, as amended. For a chip index outside 0..3 the line lookups fall back to the lines
  of chip 0: \<^verbatim>\<open>GetCS\<close> gives \<^verbatim>\<open>CS0\<close> and \<^verbatim>\<open>GetWP\<close> gives \<^verbatim>\<open>WP0\<close>. Only
  \<^verbatim>\<open>InitMem\<close> rejects the index, returning \<^verbatim>\<open>MEMFAIL\<close> with the hardware untouched,
  and \<^verbatim>\<open>CloseMem\<close> does nothing; \<^verbatim>\<open>ReadData\<close>, \<^verbatim>\<open>WakeMem\<close>, \<^verbatim>\<open>SleepMem\<close>,
  \<^verbatim>\<open>ReadMemStatus\<close>, \<^verbatim>\<open>WriteMemStatus\<close> and \<^verbatim>\<open>CheckWIP\<close> do exactly what they do
  for chip 0.
\<close>

theorem out_of_range_chip_is_chip_0:
  assumes "sint chip < 0 \<or> 3 < sint chip"
  shows "GetCS chip = CS0 \<and> GetWP chip = WP0 \<and>
         InitMem e chip s = (MEMFAIL, s) \<and> CloseMem chip s = s \<and>
         ReadData e chip = ReadData e 0 \<and>
         WakeMem e chip = WakeMem e 0 \<and>
         SleepMem e chip = SleepMem e 0 \<and>
         ReadMemStatus e chip = ReadMemStatus e 0 \<and>
         WriteMemStatus e chip = WriteMemStatus e 0 \<and>
         CheckWIP e chip = CheckWIP e 0"
proof -
  from assms have ne: "chip \<noteq> 0" "chip \<noteq> 1" "chip \<noteq> 2" "chip \<noteq> 3"
    by auto
  then have cs: "GetCS chip = GetCS 0" and wp: "GetWP chip = GetWP 0"
    by (simp_all add: GetCS_def GetWP_def)
  from ne have "InitMem e chip s = (MEMFAIL, s)" "CloseMem chip s = s"
    by (simp_all add: InitMem_def CloseMem_def)
  with cs wp lines_of_chip [OF cs wp, of e] show ?thesis
    by (simp add: GetCS_def GetWP_def)
qed

theorem out_of_range_chip_is_chip_0_witness:
  "GetCS 5 = CS0 \<and> GetWP 5 = WP0 \<and>
   InitMem (bus [0xFE] 0 (0, 0)) 5 hw_idle = (MEMFAIL, hw_idle) \<and>
   CloseMem 5 hw_idle = hw_idle \<and>
   SleepMem (bus [0xFE] 0 (0, 0)) 5 = SleepMem (bus [0xFE] 0 (0, 0)) 0 \<and>
   GetCS (- 1) = CS0 \<and> ReadData (bus [0xFE] 0 (0, 0)) (- 1) = ReadData (bus [0xFE] 0 (0, 0)) 0"
  using out_of_range_chip_is_chip_0 [of 5 "bus [0xFE] 0 (0, 0)" hw_idle]
    out_of_range_chip_is_chip_0 [of "- 1" "bus [0xFE] 0 (0, 0)" hw_idle]
  by simp


text \<open>
  C2 as claimed fails: for the index 5 both lookups give the lines of chip 0, and
  \<^verbatim>\<open>SleepMem\<close> drives chip 0's select line, sends the opcode 0xB9 and succeeds.
\<close>

theorem invalid_chip_counterexample:
  "GetCS 5 = GetCS 0 \<and> GetWP 5 = GetWP 0 \<and>
   fst (SleepMem (bus [0xFE] 0 (0, 0)) 5 hw_idle) = MEMSUCC \<and>
   trace (snd (SleepMem (bus [0xFE] 0 (0, 0)) 5 hw_idle)) =
     [PortWrite 0xFE, PinRead 0xFE, PortWrite 0xFE, PinRead 0xFF, SpiWrite 0xB9 0,
      PortWrite 0xFF, PinRead 0xFF]"
  by (simp add: ev SleepMem_def WP_USED_def MEMFALSE_def ClearCS_eq SendCommand_eq SetCS_eq
        MDPD_def)

subsection \<open>Protection policy\<close>

text \<open>
  The two ways section 4.5 and section 8 of the specification word the check of a chip
  erase agree: some address of the array is protected exactly when the level is not 0.
\<close>

lemma array_protected_iff: "list_ex (isProtected L) [0 ..< Suc MEMSIZE] \<longleftrightarrow> L \<noteq> 0"
  by (auto simp: list_ex_iff isProtected_def unprotectedBound_def MEMSIZE_def BP00_def BP01_def
        BP10_def BP11_def)

lemma range_protected_iff:
  "list_ex (isProtected L) [a ..< a + n] \<longleftrightarrow> 0 < n \<and> isProtected L (a + n - 1)"
proof
  assume "list_ex (isProtected L) [a ..< a + n]"
  then obtain x where "a \<le> x" "x < a + n" "unprotectedBound L < x"
    by (auto simp: list_ex_iff isProtected_def)
  then show "0 < n \<and> isProtected L (a + n - 1)"
    by (auto simp: isProtected_def)
next
  assume "0 < n \<and> isProtected L (a + n - 1)"
  then have "a + n - 1 \<in> set [a ..< a + n]" "isProtected L (a + n - 1)"
    by auto
  then show "list_ex (isProtected L) [a ..< a + n]"
    unfolding list_ex_iff by blast
qed


text \<open>
  C9. An address is classified as protected exactly when it is greater than the highest
  unprotected address of the level, with the bounds 0x01FFFF, 0x017FFF, 0x00FFFF and
  0x000000 for the levels 0 to 3. A page or sector erase whose address is protected, a
  chip erase when some address of the array is protected, and a write whose range holds a
  protected address each return the protection violation with the hardware exactly as it
  was: nothing has been sent, so write-enable has not been asserted. This holds for every
  bound of the busy poll.
\<close>

theorem protection_checked_before_write_enable:
  "(isProtected L a \<longleftrightarrow> a > unprotectedBound L) \<and>
   unprotectedBound 0 = 0x01FFFF \<and> unprotectedBound 1 = 0x017FFF \<and>
   unprotectedBound 2 = 0x00FFFF \<and> unprotectedBound 3 = 0x000000 \<and>
   (isProtected L a \<longrightarrow>
      ErasePage bound e chip L a s = Some (Inl ProtectionViolation, s) \<and>
      EraseSector bound e chip L a s = Some (Inl ProtectionViolation, s)) \<and>
   (list_ex (isProtected L) [0 ..< Suc MEMSIZE] \<longrightarrow>
      EraseChip bound e chip L s = Some (Inl ProtectionViolation, s)) \<and>
   (list_ex (isProtected L) [a ..< a + length bytes] \<longrightarrow>
      WriteData bound e chip L a bytes s = Some (Inl ProtectionViolation, s))"
  by (simp add: isProtected_def unprotectedBound_def BP00_def BP01_def BP10_def BP11_def
        ErasePage_def EraseSector_def erase_at_def EraseChip_def WriteData_def)

theorem protection_checked_before_write_enable_witness:
  "isProtected 1 0x018000 \<and> \<not> isProtected 1 0x017FFF \<and>
   ErasePage 100 (bus [0xFE] 0 (0, 0)) 0 1 0x018000 hw_idle =
     Some (Inl ProtectionViolation, hw_idle) \<and>
   EraseSector 100 (bus [0xFE] 0 (0, 0)) 0 1 0x018000 hw_idle =
     Some (Inl ProtectionViolation, hw_idle) \<and>
   EraseChip 100 (bus [0xFE] 0 (0, 0)) 0 1 hw_idle = Some (Inl ProtectionViolation, hw_idle) \<and>
   WriteData 100 (bus [0xFE] 0 (0, 0)) 0 1 0x017FFF [0x11, 0x22] hw_idle =
     Some (Inl ProtectionViolation, hw_idle)"
  using protection_checked_before_write_enable
          [of 1 "0x018000" 100 "bus [0xFE] 0 (0, 0)" 0 hw_idle "[]"]
        protection_checked_before_write_enable
          [of 1 "0x017FFF" 100 "bus [0xFE] 0 (0, 0)" 0 hw_idle "[0x11, 0x22]"]
  by (simp add: range_protected_iff isProtected_def unprotectedBound_def BP01_def MEMSIZE_def)


end
